theory Spec2Isabelle
  imports Main
begin

text \<open>
  A shallow embedding of the core of a bridge between a host runtime (Java and Kotlin
  objects reached through JNI) and an embedded script engine (Duktape or QuickJS), and
  the properties of it that were checked: how parameter descriptors are resolved from
  reflection data, how a host method is invoked from script, how a script function is
  invoked from the host, and how a script object is registered as a proxy. The
  definitions come first, section by section in the order of the source files; sample
  data follow; the theorems are at the end.
\<close>

section \<open>Reflection data consumed by the bridge (Kotlin side)\<close>

text \<open>
  The Kotlin class \<open>Parameter\<close> describes one parameter or return slot from two
  sources of reflection data: a Kotlin \<open>KType\<close> (with generic arguments) and a raw Java
  \<open>Class\<close>. Both are modelled as plain data: every nullable reference is an
  \<open>option\<close>, and a reflection call that may throw carries its throwable in a sum.
\<close>

datatype Throwable = Throwable string

datatype JMethod = JMethod (jm_name: string)

datatype JClass =
  JClass (jc_name: string) (isPrimitive: bool) (componentType: "JClass option")
         (jc_methods: "Throwable + JMethod list") (canonicalName: "string option")

datatype KFunction = KFunction (kf_name: string)

datatype KType =
  KType (classifier: "KClassifier option") (arguments: "KType option list")
        (isMarkedNullable: bool) (toString: string)
and KClassifier =
    IsKType KType
  | IsKClass (java: JClass) (javaObjectType: JClass)
             (memberFunctions: "Throwable + KFunction list")
  | IsKTypeParameter string

text \<open>
  An element of \<open>arguments\<close> is a type projection; its \<open>type\<close> is absent for a star
  projection, hence \<open>KType option\<close>. \<open>memberFunctions\<close> is the extension property
  of kotlin-reflect, which is known to throw on some classes; \<open>jc_methods\<close> is
  \<open>Class.getMethods\<close>, which may throw as well (a \<open>SecurityException\<close>, a linkage
  error).

  The class \<open>Method\<close> is not part of the sources at hand. The three constructors that
  \<open>Parameter\<close> calls are kept as the constructors of a datatype recording their
  arguments. What such a constructor call does is a parameter, \<open>init\<close>: the throwable
  it raises, if it raises one. \<open>Method_new init m\<close> is the constructor call recorded
  by \<open>m\<close>.
\<close>

datatype Method =
    Method_KFunction KFunction bool
  | Method_Java JMethod
  | Method_JavaGeneric JMethod "KType option list" bool

definition Method_new :: "(Method \<Rightarrow> Throwable option) \<Rightarrow> Method \<Rightarrow> Throwable + Method" where
  "Method_new init m = (case init m of Some thrown \<Rightarrow> Inl thrown | None \<Rightarrow> Inr m)"

record Parameter =
  parentMethod :: "Method option"
  kotlinType :: "KType option"
  javaClass :: "JClass option"
  name :: "string option"
  isOptional :: bool

definition startsWith :: "string \<Rightarrow> string \<Rightarrow> bool" where
  "startsWith s p = (take (length p) s = p)"

definition firstOrNull :: "'a list \<Rightarrow> 'a option" where
  "firstOrNull xs = (case xs of [] \<Rightarrow> None | x # _ \<Rightarrow> Some x)"

definition firstOrNullWhere :: "('a \<Rightarrow> bool) \<Rightarrow> 'a list \<Rightarrow> 'a option" where
  "firstOrNullWhere P xs = firstOrNull (filter P xs)"

text \<open>\<open>kotlinType.arguments.firstOrNull()?.type\<close>\<close>

definition firstArgumentType :: "KType \<Rightarrow> KType option" where
  "firstArgumentType t = (case firstOrNull (arguments t) of None \<Rightarrow> None | Some a \<Rightarrow> a)"

text \<open>\<open>classifier as? KClass<*>\<close>\<close>

definition asKClass :: "KClassifier option \<Rightarrow> KClassifier option" where
  "asKClass c = (case c of Some (IsKClass j jo mf) \<Rightarrow> Some (IsKClass j jo mf) | _ \<Rightarrow> None)"

text \<open>
  \<open>findJavaClass\<close>, the private helper at the end of the file. \<open>Class.forName\<close> is the
  JVM's class table and is taken as the parameter \<open>forName\<close>; it is only asked for the
  array class of a boxed primitive or of \<open>java.lang.Object\<close>, which always exists.
\<close>

fun findJavaClass :: "(string \<Rightarrow> JClass) \<Rightarrow> KType \<Rightarrow> JClass option" where
  "findJavaClass forName (KType (Some (IsKType t)) args nl str) = findJavaClass forName t"
| "findJavaClass forName (KType (Some (IsKClass j jo mf)) args nl str) =
     (if startsWith str ''kotlin.Array'' then
        (case asKClass (case firstArgumentType (KType (Some (IsKClass j jo mf)) args nl str) of
                          None \<Rightarrow> None | Some a \<Rightarrow> classifier a) of
           Some (IsKClass cj cjo cmf) \<Rightarrow>
             (if isPrimitive cj then
                Some (forName (''[L'' @ (case canonicalName cjo of
                                          None \<Rightarrow> ''java.lang.Object'' | Some n \<Rightarrow> n) @ '';''))
              else Some jo)
         | _ \<Rightarrow> Some jo)
      else Some j)"
| "findJavaClass forName (KType _ args nl str) = None"

text \<open>The secondary constructors \<open>Parameter(kotlinType)\<close> and \<open>Parameter(javaClass)\<close>.\<close>

definition Parameter_KType :: "(string \<Rightarrow> JClass) \<Rightarrow> KType \<Rightarrow> Parameter" where
  "Parameter_KType forName t =
     \<lparr> parentMethod = None, kotlinType = Some t, javaClass = findJavaClass forName t,
       name = None, isOptional = False \<rparr>"

definition Parameter_JClass :: "JClass \<Rightarrow> Parameter" where
  "Parameter_JClass c =
     \<lparr> parentMethod = None, kotlinType = None, javaClass = Some c,
       name = Some (jc_name c), isOptional = False \<rparr>"

text \<open>\<open>Any::class.java\<close>, the class \<open>java.lang.Object\<close>.\<close>

definition Any_class_java :: JClass where
  "Any_class_java = JClass ''java.lang.Object'' False None (Inr []) (Some ''java.lang.Object'')"

text \<open>
  \<open>Parameter.invokeMethod\<close>. The lookup inside the \<open>try\<close> block,
  \<open>kotlinClass?.memberFunctions?.firstOrNull { it.name == "invoke" }\<close>, is named
  \<open>kotlinInvoke\<close>, and the scan of the raw Java class below the block,
  \<open>javaClass?.methods?.firstOrNull { it.name == "invoke" }\<close>, is named
  \<open>javaInvoke\<close>. Whatever is thrown inside the \<open>try\<close> block, by the lookup or by
  \<open>Method(it, true)\<close>, lands in the empty \<open>catch (t: Throwable)\<close>, after which
  control continues below the block; a lookup that completes leaves through
  \<open>return@lazy\<close>. Below the block nothing is caught: a throwable raised by
  \<open>Class.getMethods\<close> or by a constructor of \<open>Method\<close> leaves the function
  (\<open>Inl\<close>).
\<close>

definition kotlinInvoke :: "KType \<Rightarrow> Throwable + KFunction option" where
  "kotlinInvoke t =
     (case asKClass (classifier t) of
        None \<Rightarrow> Inr None
      | Some kotlinClass \<Rightarrow>
          (case memberFunctions kotlinClass of
             Inl thrown \<Rightarrow> Inl thrown
           | Inr fs \<Rightarrow> Inr (firstOrNullWhere (\<lambda>f. kf_name f = ''invoke'') fs)))"

definition javaInvoke :: "Parameter \<Rightarrow> Throwable + JMethod option" where
  "javaInvoke p =
     (case javaClass p of
        None \<Rightarrow> Inr None
      | Some c \<Rightarrow>
          (case jc_methods c of
             Inl thrown \<Rightarrow> Inl thrown
           | Inr ms \<Rightarrow> Inr (firstOrNullWhere (\<lambda>m. jm_name m = ''invoke'') ms)))"

text \<open>Lines 147 to 155, below the \<open>try\<close> block.\<close>

definition invokeMethod_fallback ::
  "(Method \<Rightarrow> Throwable option) \<Rightarrow> Parameter \<Rightarrow> Throwable + Method option" where
  "invokeMethod_fallback init p =
     (case javaInvoke p of
        Inl thrown \<Rightarrow> Inl thrown
      | Inr None \<Rightarrow> Inr None
      | Inr (Some javaMethod) \<Rightarrow>
          (case kotlinType p of
             None \<Rightarrow>
               (case Method_new init (Method_Java javaMethod) of
                  Inl thrown \<Rightarrow> Inl thrown
                | Inr m \<Rightarrow> Inr (Some m))
           | Some t \<Rightarrow>
               (case Method_new init (Method_JavaGeneric javaMethod (arguments t) True) of
                  Inl thrown \<Rightarrow> Inl thrown
                | Inr m \<Rightarrow> Inr (Some m))))"

definition invokeMethod ::
  "(Method \<Rightarrow> Throwable option) \<Rightarrow> Parameter \<Rightarrow> Throwable + Method option" where
  "invokeMethod init p =
     (case kotlinType p of
        None \<Rightarrow> invokeMethod_fallback init p
      | Some t \<Rightarrow>
          (case kotlinInvoke t of
             Inl thrown \<Rightarrow> invokeMethod_fallback init p
           | Inr None \<Rightarrow> Inr None
           | Inr (Some kotlinFunction) \<Rightarrow>
               (case Method_new init (Method_KFunction kotlinFunction True) of
                  Inl thrown \<Rightarrow> invokeMethod_fallback init p
                | Inr m \<Rightarrow> Inr (Some m))))"

text \<open>
  The member functions that Kotlin reflection lists for a class and the public methods
  that Java reflection lists for it are two views of the same class. A callable wrapper
  is an object of a \<open>FunctionX\<close> interface, whose single member \<open>invoke\<close> both views
  list. \<open>views_agree\<close> says of a parameter that a Kotlin lookup which completes finds
  a function named \<open>invoke\<close> exactly when the Java scan does not come back empty.
\<close>

definition views_agree :: "Parameter \<Rightarrow> bool" where
  "views_agree p =
     (case kotlinType p of
        None \<Rightarrow> True
      | Some t \<Rightarrow>
          (case kotlinInvoke t of
             Inl thrown \<Rightarrow> True
           | Inr kotlinFunction \<Rightarrow> (kotlinFunction = None) = (javaInvoke p = Inr None)))"

text \<open>
  A parameter is a callable wrapper when each view of its class that can be obtained
  lists a method named \<open>invoke\<close>.
\<close>

definition isCallableWrapper :: "Parameter \<Rightarrow> bool" where
  "isCallableWrapper p =
     (javaInvoke p \<noteq> Inr None
      \<and> (case kotlinType p of None \<Rightarrow> True | Some t \<Rightarrow> kotlinInvoke t \<noteq> Inr None))"

text \<open>\<open>Parameter.getComponentType\<close>\<close>

definition javaComponentType :: "Parameter \<Rightarrow> JClass option" where
  "javaComponentType p = (case javaClass p of None \<Rightarrow> None | Some c \<Rightarrow> componentType c)"

definition getComponentType :: "(string \<Rightarrow> JClass) \<Rightarrow> Parameter \<Rightarrow> Parameter option" where
  "getComponentType forName p =
     (case (case javaComponentType p of
              None \<Rightarrow> None
            | Some c \<Rightarrow> if isPrimitive c then Some c else None) of
        Some c \<Rightarrow> Some (Parameter_JClass c)
      | None \<Rightarrow>
          (case kotlinType p of
             None \<Rightarrow>
               (case javaComponentType p of
                  None \<Rightarrow> Some (Parameter_JClass Any_class_java)
                | Some c \<Rightarrow> Some (Parameter_JClass c))
           | Some t \<Rightarrow>
               (case firstArgumentType t of
                  None \<Rightarrow> None
                | Some genericParameterType \<Rightarrow>
                    Some (Parameter_KType forName genericParameterType))))"

text \<open>\<open>Parameter.getGenericParameter\<close>\<close>

definition getGenericParameter :: "(string \<Rightarrow> JClass) \<Rightarrow> Parameter \<Rightarrow> Parameter option" where
  "getGenericParameter forName p =
     (case kotlinType p of
        None \<Rightarrow> Some (Parameter_JClass Any_class_java)
      | Some t \<Rightarrow>
          (case firstArgumentType t of
             None \<Rightarrow> None
           | Some genericParameterType \<Rightarrow> Some (Parameter_KType forName genericParameterType)))"

section \<open>Script values, host values and marshallers (native side)\<close>

text \<open>
  The native bridge is compiled against one of two script engines. A script value is
  the same data for both: Duktape keeps such values on its value stack, QuickJS hands
  them out as \<open>JSValue\<close> handles that the holder has to free. An object carries
  whether it is callable and its own properties; an array carries its elements.
\<close>

datatype JSValue =
    JS_UNDEFINED
  | JS_NULL
  | JS_BOOL bool
  | JS_NUMBER int
  | JS_STRING string
  | JS_ARRAY "JSValue list"
  | JS_OBJECT bool "(string \<times> JSValue) list"

text \<open>A host value as it travels through JNI; a default-constructed \<open>JValue\<close> is null.\<close>

datatype JValue =
    JNull
  | JBoolean bool
  | JInt int
  | JString string
  | JArray "JValue list"
  | JObject nat

text \<open>
  What the native code throws. \<open>duk_error\<close> stands for an error raised by the Duktape
  API itself, \<open>JsException\<close> for a script error translated by the exception handler. The
  last two constructors mark places where C++ or JNI leave the behaviour open (an index
  outside a \<open>std::vector\<close>, \<open>back()\<close> of an empty vector, an element access outside a
  Java array): the model stops there and reports the place.
\<close>

datatype exception =
    invalid_argument string
  | runtime_error string
  | JniException string
  | JsException JSValue
  | duk_error string
  | undefined_behavior string
  | element_out_of_bounds int

fun what :: "exception \<Rightarrow> string" where
  "what (invalid_argument s) = s"
| "what (runtime_error s) = s"
| "what (JniException s) = s"
| "what (JsException v) = ''JavaScript exception''"
| "what (duk_error s) = s"
| "what (undefined_behavior s) = s"
| "what (element_out_of_bounds i) = ''array index out of bounds''"

text \<open>Which of the modelled exceptions a handler for \<open>std::exception\<close> catches.\<close>

fun is_std_exception :: "exception \<Rightarrow> bool" where
  "is_std_exception (invalid_argument s) = True"
| "is_std_exception (runtime_error s) = True"
| "is_std_exception (JniException s) = True"
| "is_std_exception (JsException v) = True"
| "is_std_exception e = False"

subsection \<open>Engine primitives\<close>

fun JS_IsObject :: "JSValue \<Rightarrow> bool" where
  "JS_IsObject (JS_OBJECT c ps) = True"
| "JS_IsObject (JS_ARRAY vs) = True"
| "JS_IsObject _ = False"

fun JS_IsNull :: "JSValue \<Rightarrow> bool" where
  "JS_IsNull JS_NULL = True"
| "JS_IsNull _ = False"

fun JS_IsUndefined :: "JSValue \<Rightarrow> bool" where
  "JS_IsUndefined JS_UNDEFINED = True"
| "JS_IsUndefined _ = False"

fun JS_IsFunction :: "JSValue \<Rightarrow> bool" where
  "JS_IsFunction (JS_OBJECT c ps) = c"
| "JS_IsFunction _ = False"

text \<open>\<open>std::to_string\<close> on an integer.\<close>

definition digit_char :: "nat \<Rightarrow> char" where
  "digit_char d = char_of (48 + d)"

fun digits :: "nat \<Rightarrow> string" where
  "digits n = (if n < 10 then [digit_char n] else digits (n div 10) @ [digit_char (n mod 10)])"

declare digits.simps [simp del]

definition to_string :: "int \<Rightarrow> string" where
  "to_string i = (if i < 0 then CHR ''-'' # digits (nat (- i)) else digits (nat i))"

text \<open>Property access: own properties of an object, elements of an array.\<close>

fun hasPropertyStr :: "JSValue \<Rightarrow> string \<Rightarrow> bool" where
  "hasPropertyStr (JS_OBJECT c ps) k = (map_of ps k \<noteq> None)"
| "hasPropertyStr _ k = False"

fun JS_GetPropertyStr :: "JSValue \<Rightarrow> string \<Rightarrow> JSValue" where
  "JS_GetPropertyStr (JS_OBJECT c ps) k = (case map_of ps k of None \<Rightarrow> JS_UNDEFINED | Some v \<Rightarrow> v)"
| "JS_GetPropertyStr _ k = JS_UNDEFINED"

fun JS_GetPropertyUint32 :: "JSValue \<Rightarrow> nat \<Rightarrow> JSValue" where
  "JS_GetPropertyUint32 (JS_ARRAY vs) j = (if j < length vs then vs ! j else JS_UNDEFINED)"
| "JS_GetPropertyUint32 v j = JS_GetPropertyStr v (to_string (int j))"

definition JS_NewArray :: JSValue where
  "JS_NewArray = JS_ARRAY []"

fun JS_SetPropertyUint32 :: "JSValue \<Rightarrow> nat \<Rightarrow> JSValue \<Rightarrow> JSValue" where
  "JS_SetPropertyUint32 (JS_ARRAY vs) j v =
     (if j < length vs then JS_ARRAY (vs[j := v])
      else JS_ARRAY (vs @ replicate (j - length vs) JS_UNDEFINED @ [v]))"
| "JS_SetPropertyUint32 (JS_OBJECT c ps) j v = JS_OBJECT c ((to_string (int j), v) # ps)"
| "JS_SetPropertyUint32 x j v = x"

text \<open>
  The Duktape value stack is a list with its top at the end. An index is counted from
  the bottom when non-negative and from the top when negative; an invalid index has no
  value and every type test on it is false. \<open>duk_get_prop_string\<close> pushes the property
  value (\<open>undefined\<close> when there is none) and tells whether the property exists.
  \<open>duk_pop_n\<close> raises a Duktape error when the stack holds fewer values.
\<close>

type_synonym duk_stack = "JSValue list"

definition duk_get :: "duk_stack \<Rightarrow> int \<Rightarrow> JSValue option" where
  "duk_get st idx =
     (if 0 \<le> idx \<and> idx < int (length st) then Some (st ! nat idx)
      else if idx < 0 \<and> - idx \<le> int (length st) then Some (st ! nat (int (length st) + idx))
      else None)"

definition duk_is_object :: "duk_stack \<Rightarrow> int \<Rightarrow> bool" where
  "duk_is_object st idx = (case duk_get st idx of None \<Rightarrow> False | Some v \<Rightarrow> JS_IsObject v)"

definition duk_is_null :: "duk_stack \<Rightarrow> int \<Rightarrow> bool" where
  "duk_is_null st idx = (case duk_get st idx of None \<Rightarrow> False | Some v \<Rightarrow> JS_IsNull v)"

definition duk_is_callable :: "duk_stack \<Rightarrow> int \<Rightarrow> bool" where
  "duk_is_callable st idx = (case duk_get st idx of None \<Rightarrow> False | Some v \<Rightarrow> JS_IsFunction v)"

definition duk_has_prop_string :: "duk_stack \<Rightarrow> int \<Rightarrow> string \<Rightarrow> bool" where
  "duk_has_prop_string st idx k =
     (case duk_get st idx of None \<Rightarrow> False | Some v \<Rightarrow> hasPropertyStr v k)"

definition duk_get_prop_string :: "duk_stack \<Rightarrow> int \<Rightarrow> string \<Rightarrow> bool \<times> duk_stack" where
  "duk_get_prop_string st idx k =
     (case duk_get st idx of
        None \<Rightarrow> (False, st @ [JS_UNDEFINED])
      | Some v \<Rightarrow> (hasPropertyStr v k, st @ [JS_GetPropertyStr v k]))"

definition duk_pop_n :: "nat \<Rightarrow> duk_stack \<Rightarrow> exception + duk_stack" where
  "duk_pop_n n st =
     (if n \<le> length st then Inr (take (length st - n) st) else Inl (duk_error ''invalid count''))"

subsection \<open>Containers with their out-of-range behaviour written out\<close>

text \<open>\<open>v[i]\<close> on a \<open>std::vector\<close> and \<open>v.back()\<close>.\<close>

definition vector_at :: "'a list \<Rightarrow> int \<Rightarrow> exception + 'a" where
  "vector_at xs i =
     (if 0 \<le> i \<and> i < int (length xs) then Inr (xs ! nat i)
      else Inl (undefined_behavior ''vector index out of range''))"

definition vector_back :: "'a list \<Rightarrow> exception + 'a" where
  "vector_back xs = (case xs of [] \<Rightarrow> Inl (undefined_behavior ''back() of an empty vector'')
              | _ \<Rightarrow> Inr (last xs))"

text \<open>
  A \<open>JObjectArrayLocalRef\<close> is a possibly null reference to a Java object array.
  \<open>getElement\<close> outside the array (or on the null reference) is reported with its index.
\<close>

type_synonym JObjectArrayLocalRef = "JValue list option"

definition getLength :: "JObjectArrayLocalRef \<Rightarrow> int" where
  "getLength a = (case a of None \<Rightarrow> 0 | Some xs \<Rightarrow> int (length xs))"

definition getElement :: "JObjectArrayLocalRef \<Rightarrow> int \<Rightarrow> exception + JValue" where
  "getElement a i =
     (case a of
        None \<Rightarrow> Inl (element_out_of_bounds i)
      | Some xs \<Rightarrow>
          (if 0 \<le> i \<and> i < int (length xs) then Inr (xs ! nat i)
           else Inl (element_out_of_bounds i)))"

text \<open>\<open>JniContext::getArrayLength\<close> on a reference cast to \<open>jarray\<close>.\<close>

definition getArrayLength :: "JValue \<Rightarrow> exception + int" where
  "getArrayLength v =
     (case v of JArray xs \<Rightarrow> Inr (int (length xs))
      | _ \<Rightarrow> Inl (undefined_behavior ''GetArrayLength on a reference that is no array''))"

text \<open>
  Unsigned arithmetic of \<open>size_t\<close> (64 bits on the arm64-v8a and x86-64 ABIs), with the
  wrap-around written out, and the conversion of a \<open>size_t\<close> to \<open>ssize_t\<close>.
\<close>

definition SIZE_WIDTH :: nat where
  "SIZE_WIDTH = 64"

definition size_t_minus :: "nat \<Rightarrow> nat \<Rightarrow> nat" where
  "size_t_minus a b = (if b \<le> a then a - b else 2 ^ SIZE_WIDTH - (b - a))"

definition to_ssize_t :: "nat \<Rightarrow> int" where
  "to_ssize_t n = (if n < 2 ^ (SIZE_WIDTH - 1) then int n else int n - 2 ^ SIZE_WIDTH)"

subsection \<open>Marshallers\<close>

text \<open>
  The class \<open>JavaType\<close> and its subclasses are not part of the sources at hand; a
  marshaller is taken as the record of its conversions, each of which may throw. The
  fields carry the names of the QuickJS flavour.
\<close>

record JavaType =
  toJava :: "JSValue \<Rightarrow> exception + JValue"
  toJavaArray :: "JSValue \<Rightarrow> exception + JValue"
  fromJava :: "JValue \<Rightarrow> exception + JSValue"
  fromJavaArray :: "JValue \<Rightarrow> exception + JSValue"
  isDeferred :: bool

fun array_elements :: "JSValue \<Rightarrow> JSValue list" where
  "array_elements (JS_ARRAY vs) = vs"
| "array_elements _ = []"

text \<open>
  Modelled from the spec: the Duktape flavour of \<open>JavaType\<close> (\<open>pop\<close>, \<open>popArray\<close>,
  \<open>push\<close>, \<open>pushArray\<close>) is missing from the sources. Following section 4.2, \<open>pop\<close>
  reads the script value on top of the stack into a host value and removes it;
  \<open>popArray\<close> in expanded mode reads \<open>count\<close> trailing script values into one host
  array; \<open>push\<close> writes one host value as one script value on top of the stack;
  \<open>pushArray\<close> in expand mode writes one host array as that many separate script values
  and returns their number. A failed write leaves the stack as it was. Reading more
  values than the stack holds is the Duktape error of popping an empty stack.
\<close>

definition pop :: "JavaType \<Rightarrow> duk_stack \<Rightarrow> (exception + JValue) \<times> duk_stack" where
  "pop T st =
     (if st = [] then (Inl (duk_error ''invalid count''), st)
      else (toJava T (last st), butlast st))"

definition popArray :: "JavaType \<Rightarrow> nat \<Rightarrow> duk_stack \<Rightarrow> (exception + JValue) \<times> duk_stack" where
  "popArray T count st =
     (if count \<le> length st
      then (toJavaArray T (JS_ARRAY (drop (length st - count) st)), take (length st - count) st)
      else (Inl (duk_error ''invalid count''), st))"

definition push :: "JavaType \<Rightarrow> JValue \<Rightarrow> duk_stack \<Rightarrow> (exception + nat) \<times> duk_stack" where
  "push T v st =
     (case fromJava T v of Inl e \<Rightarrow> (Inl e, st) | Inr x \<Rightarrow> (Inr 1, st @ [x]))"

definition pushArray :: "JavaType \<Rightarrow> JValue \<Rightarrow> duk_stack \<Rightarrow> (exception + nat) \<times> duk_stack" where
  "pushArray T v st =
     (case fromJavaArray T v of
        Inl e \<Rightarrow> (Inl e, st)
      | Inr a \<Rightarrow> (Inr (length (array_elements a)), st @ array_elements a))"

text \<open>
  The members that \<open>JavaMethod\<close> and \<open>JavaScriptMethod\<close> have in common. The type
  parameter is the type of a marshaller.
\<close>

record 't MethodBase =
  m_methodName :: string
  m_isLambda :: bool
  m_isVarArgs :: bool
  m_argumentTypes :: "'t list"
  m_returnValueType :: 't

section \<open>Calling a host method from script: \<open>JavaMethod::invoke\<close>\<close>

text \<open>
  \<open>m_methodBody\<close> is the closure built by the constructor: it performs the foreign
  call on the loaded arguments and marshals the result back. Its type differs between the
  flavours (Duktape leaves the result on the value stack), so it is a type parameter.
  The receiver \<open>javaThis\<close> is handed to the body unchanged and is left out, as is the
  bridge context, which only gives access to the engine. Logging is not modelled.
\<close>

record ('t, 'b) JavaMethod = "'t MethodBase" +
  m_methodBody :: 'b

definition tooManyParameters :: "string \<Rightarrow> int \<Rightarrow> int \<Rightarrow> string" where
  "tooManyParameters methodName minArgs argCount =
     ''Too many parameters when calling Java method '' @ methodName @ '' (expected: ''
       @ to_string minArgs @ '', received: '' @ to_string argCount @ '')''"

subsection \<open>Duktape flavour\<close>

text \<open>
  \<open>argCount\<close> is the height of the value stack (a non-negative \<open>int\<close>), \<open>minArgs\<close> a
  \<open>size_t\<close>. The comparisons between them are unsigned and agree with the comparisons
  of the numbers; the two subtractions \<open>size() - 1\<close> and \<open>argCount - minArgs\<close> are
  carried out in \<open>size_t\<close>.
\<close>

definition minArgs_duktape :: "('t, 'z) MethodBase_scheme \<Rightarrow> nat" where
  "minArgs_duktape m =
     (if m_isVarArgs m then size_t_minus (length (m_argumentTypes m)) 1
      else length (m_argumentTypes m))"

text \<open>
  The loop \<open>for (ssize_t i = minArgs - 1; i >= 0; --i)\<close>, over the list of the indices
  it visits.
\<close>

fun loadFixed_duktape ::
  "JavaType list \<Rightarrow> nat \<Rightarrow> nat list \<Rightarrow> JValue list \<Rightarrow> duk_stack
     \<Rightarrow> (exception + JValue list) \<times> duk_stack" where
  "loadFixed_duktape types argCount [] args st = (Inr args, st)"
| "loadFixed_duktape types argCount (i # rest) args st =
     (case vector_at types (int i) of
        Inl e \<Rightarrow> (Inl e, st)
      | Inr argumentType \<Rightarrow>
          (if i \<ge> argCount then loadFixed_duktape types argCount rest (args[i := JNull]) st
           else (case pop argumentType st of
                   (Inl e, st') \<Rightarrow> (Inl e, st')
                 | (Inr v, st') \<Rightarrow> loadFixed_duktape types argCount rest (args[i := v]) st')))"

definition JavaMethod_loadArguments_duktape ::
  "(JavaType, 'z) MethodBase_scheme \<Rightarrow> duk_stack \<Rightarrow> (exception + JValue list) \<times> duk_stack" where
  "JavaMethod_loadArguments_duktape m st =
     (let argCount = length st;
          minArgs = minArgs_duktape m;
          args = replicate (length (m_argumentTypes m)) JNull
      in if \<not> m_isVarArgs m \<and> argCount > minArgs then
           (Inl (invalid_argument
                   (tooManyParameters (m_methodName m) (int minArgs) (int argCount))), st)
         else
           (case (if m_isVarArgs m then
                    (case vector_back (m_argumentTypes m) of
                       Inl e \<Rightarrow> (Inl e, st)
                     | Inr argumentType \<Rightarrow>
                         (case popArray argumentType (size_t_minus argCount minArgs) st of
                            (Inl e, st') \<Rightarrow> (Inl e, st')
                          | (Inr a, st') \<Rightarrow> (Inr (args[length args - 1 := a]), st')))
                  else (Inr args, st)) of
              (Inl e, st') \<Rightarrow> (Inl e, st')
            | (Inr args', st') \<Rightarrow>
                loadFixed_duktape (m_argumentTypes m) argCount
                  (rev [0..<nat (to_ssize_t (size_t_minus minArgs 1) + 1)]) args' st'))"

definition JavaMethod_invoke_duktape ::
  "(JavaType, JValue list \<Rightarrow> duk_stack \<Rightarrow> (exception + int) \<times> duk_stack) JavaMethod
     \<Rightarrow> duk_stack \<Rightarrow> (exception + int) \<times> duk_stack" where
  "JavaMethod_invoke_duktape m st =
     (case JavaMethod_loadArguments_duktape m st of
        (Inl e, st') \<Rightarrow> (Inl e, st')
      | (Inr args, st') \<Rightarrow> m_methodBody m args st')"

subsection \<open>QuickJS flavour\<close>

definition minArgs_quickjs :: "('t, 'z) MethodBase_scheme \<Rightarrow> int" where
  "minArgs_quickjs m =
     (if m_isVarArgs m then int (length (m_argumentTypes m)) - 1
      else int (length (m_argumentTypes m)))"

text \<open>The loop \<open>for (int i = 0; i < minArgs; ++i)\<close>, over the list of its indices.\<close>

fun loadFixed_quickjs ::
  "JavaType list \<Rightarrow> JSValue list \<Rightarrow> nat list \<Rightarrow> JValue list \<Rightarrow> exception + JValue list" where
  "loadFixed_quickjs types argv [] args = Inr args"
| "loadFixed_quickjs types argv (i # rest) args =
     (case vector_at types (int i) of
        Inl e \<Rightarrow> Inl e
      | Inr argumentType \<Rightarrow>
          (if i \<ge> length argv then loadFixed_quickjs types argv rest (args[i := JNull])
           else (case toJava argumentType (argv ! i) of
                   Inl e \<Rightarrow> Inl e
                 | Inr v \<Rightarrow> loadFixed_quickjs types argv rest (args[i := v]))))"

text \<open>
  The loop that moves the trailing values into a fresh script array. It reads
  \<open>argv[minArgs + i]\<close> for \<open>i < argc - minArgs\<close> only.
\<close>

definition collectVarArgs :: "JSValue list \<Rightarrow> int \<Rightarrow> int \<Rightarrow> JSValue" where
  "collectVarArgs argv minArgs varArgCount =
     fold (\<lambda>i varArgArray. JS_SetPropertyUint32 varArgArray i (argv ! nat (minArgs + int i)))
          [0..<nat varArgCount] JS_NewArray"

definition JavaMethod_loadArguments_quickjs ::
  "(JavaType, 'z) MethodBase_scheme \<Rightarrow> JSValue list \<Rightarrow> exception + JValue list" where
  "JavaMethod_loadArguments_quickjs m argv =
     (let argc = int (length argv);
          minArgs = minArgs_quickjs m;
          args = replicate (length (m_argumentTypes m)) JNull
      in if \<not> m_isVarArgs m \<and> argc > minArgs then
           Inl (invalid_argument (tooManyParameters (m_methodName m) minArgs argc))
         else
           (case loadFixed_quickjs (m_argumentTypes m) argv [0..<nat minArgs] args of
              Inl e \<Rightarrow> Inl e
            | Inr args' \<Rightarrow>
                (if m_isVarArgs m then
                   (case vector_back (m_argumentTypes m) of
                      Inl e \<Rightarrow> Inl e
                    | Inr argumentType \<Rightarrow>
                        (case toJavaArray argumentType
                                (collectVarArgs argv minArgs (argc - minArgs)) of
                           Inl e \<Rightarrow> Inl e
                         | Inr a \<Rightarrow> Inr (args'[length args' - 1 := a])))
                 else Inr args')))"

definition JavaMethod_invoke_quickjs ::
  "(JavaType, JValue list \<Rightarrow> exception + JSValue) JavaMethod \<Rightarrow> JSValue list
     \<Rightarrow> exception + JSValue" where
  "JavaMethod_invoke_quickjs m argv =
     (case JavaMethod_loadArguments_quickjs m argv of
        Inl e \<Rightarrow> Inl e
      | Inr args \<Rightarrow> m_methodBody m args)"

section \<open>Calling a script function from the host: \<open>JavaScriptMethod\<close>\<close>

text \<open>
  A \<open>jsBridgeMethod\<close> is the reflected description of a method as the native code
  reads it through \<open>MethodInterface\<close>; \<open>getJavaMethod\<close> is reduced to the identity
  (\<open>jmethodID\<close>) of the reflected Java method. A reference to a \<open>jsBridgeParameter\<close>
  may be null, hence \<open>Parameter option\<close>. \<open>JavaTypeProvider\<close> is not part of the
  sources at hand and is taken as the record of the two functions that are called.
\<close>

record jsBridgeMethod =
  getName :: string
  isVarArgs :: bool
  getParameters :: "Parameter list"
  getReturnParameter :: "Parameter option"
  getJavaMethod :: nat

record 't JavaTypeProvider =
  makeUniqueType :: "Parameter option \<Rightarrow> bool \<Rightarrow> exception + 't"
  getDeferredType :: "Parameter option \<Rightarrow> 't"

record 't JavaScriptMethod = "'t MethodBase" +
  m_returnValueParameter :: "Parameter option"

subsection \<open>Constructor\<close>

text \<open>
  The loop that creates the argument marshallers, over the list of the parameters that
  are left; the test \<open>i == numParameters - 1\<close> holds at the last one. The second
  argument of \<open>makeUniqueType\<close> is its \<open>boxed\<close> flag.
\<close>

fun JavaScriptMethod_argumentTypes ::
  "(string \<Rightarrow> JClass) \<Rightarrow> 't JavaTypeProvider \<Rightarrow> bool \<Rightarrow> Parameter list \<Rightarrow> exception + 't list" where
  "JavaScriptMethod_argumentTypes forName provider varArgs [] = Inr []"
| "JavaScriptMethod_argumentTypes forName provider varArgs (parameter # rest) =
     (if varArgs \<and> rest = [] then
        (case makeUniqueType provider (getGenericParameter forName parameter) False of
           Inl e \<Rightarrow> Inl e
         | Inr javaType \<Rightarrow> Inr [javaType])
      else
        (case makeUniqueType provider (Some parameter) True of
           Inl e \<Rightarrow> Inl e
         | Inr javaType \<Rightarrow>
             (case JavaScriptMethod_argumentTypes forName provider varArgs rest of
                Inl e \<Rightarrow> Inl e
              | Inr javaTypes \<Rightarrow> Inr (javaType # javaTypes))))"

definition JavaScriptMethod_new ::
  "(string \<Rightarrow> JClass) \<Rightarrow> 't JavaTypeProvider \<Rightarrow> jsBridgeMethod \<Rightarrow> string \<Rightarrow> bool
     \<Rightarrow> exception + 't JavaScriptMethod" where
  "JavaScriptMethod_new forName provider method methodName isLambda =
     (case makeUniqueType provider (getReturnParameter method) True of
        Inl e \<Rightarrow> Inl e
      | Inr returnValueType \<Rightarrow>
          (case JavaScriptMethod_argumentTypes forName provider (isVarArgs method)
                  (getParameters method) of
             Inl e \<Rightarrow> Inl e
           | Inr argumentTypes \<Rightarrow>
               Inr \<lparr> m_methodName = methodName, m_isLambda = isLambda,
                     m_isVarArgs = isVarArgs method, m_argumentTypes = argumentTypes,
                     m_returnValueType = returnValueType,
                     m_returnValueParameter = getReturnParameter method \<rparr>))"

subsection \<open>The script call\<close>

text \<open>
  What a script function does when called is the engine's business: \<open>JS_Call\<close> is a
  parameter that maps the callee, its \<open>this\<close> and the arguments to the value returned
  (\<open>Inr\<close>) or the value thrown (\<open>Inl\<close>). The translation of a thrown value by the
  exception handler is reduced to wrapping it in \<open>JsException\<close>.
\<close>

type_synonym script_call = "JSValue \<Rightarrow> JSValue \<Rightarrow> JSValue list \<Rightarrow> JSValue + JSValue"

subsection \<open>Duktape flavour\<close>

text \<open>
  \<open>pop_and_rethrow n e st\<close> is the handler \<open>duk_pop_n(ctx, n); throw;\<close>.
  \<open>catch_std_exception\<close> is a handler \<open>catch (const std::exception &)\<close> around
  it: any other exception passes by.
\<close>

definition pop_and_rethrow :: "nat \<Rightarrow> exception \<Rightarrow> duk_stack \<Rightarrow> (exception + 'a) \<times> duk_stack" where
  "pop_and_rethrow n e st =
     (case duk_pop_n n st of Inl e' \<Rightarrow> (Inl e', st) | Inr st' \<Rightarrow> (Inl e, st'))"

definition catch_std_exception ::
  "nat \<Rightarrow> exception \<Rightarrow> duk_stack \<Rightarrow> (exception + 'a) \<times> duk_stack" where
  "catch_std_exception n e st = (if is_std_exception e then pop_and_rethrow n e st else (Inl e, st))"

text \<open>
  The loop that pushes the arguments, over the list of its indices. It returns the final
  value of \<open>numArguments\<close>.
\<close>

fun pushArguments_duktape ::
  "(JavaType, 'z) MethodBase_scheme \<Rightarrow> JObjectArrayLocalRef \<Rightarrow> int \<Rightarrow> nat list \<Rightarrow> duk_stack
     \<Rightarrow> (exception + int) \<times> duk_stack" where
  "pushArguments_duktape m args numArguments [] st = (Inr numArguments, st)"
| "pushArguments_duktape m args numArguments (i # rest) st =
     (case getElement args (int i) of
        Inl e \<Rightarrow> (Inl e, st)
      | Inr arg \<Rightarrow>
          (case vector_at (m_argumentTypes m) (int i) of
             Inl e \<Rightarrow> (Inl e, st)
           | Inr argumentType \<Rightarrow>
               (if m_isVarArgs m \<and> int i = numArguments - 1 then
                  (case pushArray argumentType arg st of
                     (Inl e, st') \<Rightarrow> catch_std_exception ((if m_isLambda m then 1 else 2) + i) e st'
                   | (Inr n, st') \<Rightarrow> (Inr (int i + int n), st'))
                else
                  (case push argumentType arg st of
                     (Inl e, st') \<Rightarrow> catch_std_exception ((if m_isLambda m then 1 else 2) + i) e st'
                   | (Inr n, st') \<Rightarrow> pushArguments_duktape m args numArguments rest st'))))"

text \<open>
  Lines 108 to 133: the callee (and, for a method, its name) is pushed, then the
  arguments. \<open>duk_require_function\<close> and \<open>duk_require_object\<close> raise a Duktape error.
\<close>

definition JavaScriptMethod_pushCall_duktape ::
  "(JavaType, 'z) MethodBase_scheme \<Rightarrow> JSValue \<Rightarrow> JObjectArrayLocalRef \<Rightarrow> duk_stack
     \<Rightarrow> (exception + int) \<times> duk_stack" where
  "JavaScriptMethod_pushCall_duktape m jsHeapPtr args st =
     (let st1 = st @ [jsHeapPtr] in
      case (if m_isLambda m then
              (if JS_IsFunction jsHeapPtr then Inr st1
               else Inl (duk_error ''function required''))
            else
              (if JS_IsObject jsHeapPtr then Inr (st1 @ [JS_STRING (m_methodName m)])
               else Inl (duk_error ''object required''))) of
        Inl e \<Rightarrow> (Inl e, st1)
      | Inr st2 \<Rightarrow>
          pushArguments_duktape m args (getLength args) [0..<nat (getLength args)] st2)"

text \<open>
  \<open>duk_pcall\<close> replaces \<open>[func arg1 ... argN]\<close> on top of the stack by the outcome,
  \<open>duk_pcall_prop\<close> replaces \<open>[key arg1 ... argN]\<close> by the outcome of calling the
  property \<open>key\<close> of the object at \<open>obj_idx\<close>; the flag tells \<open>DUK_EXEC_SUCCESS\<close>.
  \<open>duk_remove\<close> takes the value at an index out of the stack.
\<close>

definition duk_outcome :: "JSValue + JSValue \<Rightarrow> duk_stack \<Rightarrow> bool \<times> duk_stack" where
  "duk_outcome r base = (case r of Inl err \<Rightarrow> (False, base @ [err]) | Inr v \<Rightarrow> (True, base @ [v]))"

definition duk_pcall :: "script_call \<Rightarrow> nat \<Rightarrow> duk_stack \<Rightarrow> bool \<times> duk_stack" where
  "duk_pcall JS_Call nargs st =
     (if nargs + 1 \<le> length st then
        duk_outcome
          (JS_Call (st ! (length st - nargs - 1)) JS_UNDEFINED (drop (length st - nargs) st))
          (take (length st - nargs - 1) st)
      else (False, st @ [JS_STRING ''invalid call args'']))"

definition duk_pcall_prop :: "script_call \<Rightarrow> nat \<Rightarrow> nat \<Rightarrow> duk_stack \<Rightarrow> bool \<times> duk_stack" where
  "duk_pcall_prop JS_Call obj_idx nargs st =
     (if nargs + 1 \<le> length st \<and> obj_idx < length st - nargs - 1 then
        duk_outcome
          (JS_Call (JS_GetPropertyStr (st ! obj_idx)
                      (case st ! (length st - nargs - 1) of JS_STRING k \<Rightarrow> k | _ \<Rightarrow> []))
                   (st ! obj_idx) (drop (length st - nargs) st))
          (take (length st - nargs - 1) st)
      else (False, st @ [JS_STRING ''invalid call args'']))"

definition duk_remove :: "nat \<Rightarrow> duk_stack \<Rightarrow> duk_stack" where
  "duk_remove idx st = take idx st @ drop (Suc idx) st"

text \<open>Lines 135 to 141.\<close>

definition JavaScriptMethod_call_duktape ::
  "script_call \<Rightarrow> (JavaType, 'z) MethodBase_scheme \<Rightarrow> nat \<Rightarrow> int \<Rightarrow> duk_stack \<Rightarrow> bool \<times> duk_stack" where
  "JavaScriptMethod_call_duktape JS_Call m jsLambdaOrObjectIdx numArguments st =
     (if m_isLambda m then duk_pcall JS_Call (nat numArguments) st
      else (case duk_pcall_prop JS_Call jsLambdaOrObjectIdx (nat numArguments) st of
              (ret, st') \<Rightarrow> (ret, duk_remove jsLambdaOrObjectIdx st')))"

text \<open>Lines 142 to 155, entered with the outcome of the call on top of the stack.\<close>

definition JavaScriptMethod_popResult_duktape ::
  "JavaType JavaTypeProvider \<Rightarrow> JavaType JavaScriptMethod \<Rightarrow> bool \<Rightarrow> bool \<Rightarrow> duk_stack
     \<Rightarrow> (exception + JValue) \<times> duk_stack" where
  "JavaScriptMethod_popResult_duktape provider m awaitJsPromise ret st =
     (if ret then
        (let isDeferred' = awaitJsPromise \<and> duk_is_object st (- 1)
                             \<and> duk_has_prop_string st (- 1) ''then''
         in if isDeferred' \<and> \<not> isDeferred (m_returnValueType m)
            then pop (getDeferredType provider (m_returnValueParameter m)) st
            else pop (m_returnValueType m) st)
      else
        (if st = [] then (Inl (duk_error ''invalid index''), st)
         else (Inl (JsException (last st)), butlast st)))"

definition JavaScriptMethod_invoke_duktape ::
  "script_call \<Rightarrow> JavaType JavaTypeProvider \<Rightarrow> JavaType JavaScriptMethod \<Rightarrow> JSValue
     \<Rightarrow> JObjectArrayLocalRef \<Rightarrow> bool \<Rightarrow> duk_stack \<Rightarrow> (exception + JValue) \<times> duk_stack" where
  "JavaScriptMethod_invoke_duktape JS_Call provider m jsHeapPtr args awaitJsPromise st =
     (case JavaScriptMethod_pushCall_duktape m jsHeapPtr args st of
        (Inl e, st') \<Rightarrow> (Inl e, st')
      | (Inr numArguments, st') \<Rightarrow>
          (case JavaScriptMethod_call_duktape JS_Call m (length st) numArguments st' of
             (ret, st'') \<Rightarrow>
               JavaScriptMethod_popResult_duktape provider m awaitJsPromise ret st''))"

subsection \<open>QuickJS flavour\<close>

text \<open>
  A \<open>JSValue\<close> obtained from the engine or from a marshaller is owned by the caller
  until it is passed to \<open>JS_FreeValue\<close>. The model records both in a trace, together
  with the call of the script function.
\<close>

datatype event =
    Acquire JSValue
  | Release JSValue
  | Call JSValue JSValue "JSValue list"

text \<open>
  The loop that fills \<open>jsArgs\<close>, over the list of its indices. The inner loop of the
  variadic branch stores element \<open>j\<close> at \<open>jsArgs[i + j]\<close>; the handler, again for
  \<open>std::exception\<close>, frees \<open>jsArgs[0]\<close> to \<open>jsArgs[i - 1]\<close> and rethrows.
\<close>

definition free_and_rethrow ::
  "nat \<Rightarrow> exception \<Rightarrow> JSValue list \<Rightarrow> event list \<Rightarrow> (exception + 'a) \<times> event list" where
  "free_and_rethrow i e jsArgs tr =
     (if is_std_exception e then (Inl e, tr @ map Release (take i jsArgs)) else (Inl e, tr))"

fun marshalArguments_quickjs ::
  "(JavaType, 'z) MethodBase_scheme \<Rightarrow> JObjectArrayLocalRef \<Rightarrow> int \<Rightarrow> JValue \<Rightarrow> int
     \<Rightarrow> nat list \<Rightarrow> JSValue list \<Rightarrow> event list \<Rightarrow> (exception + JSValue list) \<times> event list" where
  "marshalArguments_quickjs m javaArgs numJavaArguments varArgJavaArray varArgCount [] jsArgs tr =
     (Inr jsArgs, tr)"
| "marshalArguments_quickjs m javaArgs numJavaArguments varArgJavaArray varArgCount (i # rest)
       jsArgs tr =
     (case getElement javaArgs (int i) of
        Inl e \<Rightarrow> (Inl e, tr)
      | Inr javaArg \<Rightarrow>
          (case vector_at (m_argumentTypes m) (int i) of
             Inl e \<Rightarrow> (Inl e, tr)
           | Inr argumentType \<Rightarrow>
               (if m_isVarArgs m \<and> int i \<ge> numJavaArguments - 1 then
                  (case fromJavaArray argumentType varArgJavaArray of
                     Inl e \<Rightarrow> free_and_rethrow i e jsArgs tr
                   | Inr varArgJsArray \<Rightarrow>
                       (let elements =
                              map (JS_GetPropertyUint32 varArgJsArray) [0..<nat varArgCount]
                        in (Inr (fold (\<lambda>j a. a[i + j := elements ! j]) [0..<nat varArgCount] jsArgs),
                            tr @ [Acquire varArgJsArray] @ map Acquire elements
                               @ [Release varArgJsArray])))
                else
                  (case fromJava argumentType javaArg of
                     Inl e \<Rightarrow> free_and_rethrow i e jsArgs tr
                   | Inr v \<Rightarrow>
                       marshalArguments_quickjs m javaArgs numJavaArguments varArgJavaArray
                         varArgCount rest (jsArgs[i := v]) (tr @ [Acquire v])))))"

text \<open>Lines 167 to 203. A default-constructed \<open>JniLocalRef\<close> is the null reference.\<close>

definition JavaScriptMethod_marshalArguments_quickjs ::
  "(JavaType, 'z) MethodBase_scheme \<Rightarrow> JObjectArrayLocalRef
     \<Rightarrow> (exception + JSValue list) \<times> event list" where
  "JavaScriptMethod_marshalArguments_quickjs m javaArgs =
     (let numJavaArguments = getLength javaArgs in
      case (if m_isVarArgs m then
              (case getElement javaArgs (numJavaArguments - 1) of
                 Inl e \<Rightarrow> Inl e
               | Inr varArgJavaArray \<Rightarrow>
                   (case getArrayLength varArgJavaArray of
                      Inl e \<Rightarrow> Inl e
                    | Inr varArgCount \<Rightarrow>
                        Inr (varArgJavaArray, varArgCount,
                             numJavaArguments + (varArgCount - 1))))
            else Inr (JNull, 0, numJavaArguments)) of
        Inl e \<Rightarrow> (Inl e, [])
      | Inr (varArgJavaArray, varArgCount, numJsArguments) \<Rightarrow>
          marshalArguments_quickjs m javaArgs numJavaArguments varArgJavaArray varArgCount
            [0..<nat numJsArguments] (replicate (nat numJsArguments) JS_UNDEFINED) [])"

text \<open>
  Lines 205 to 221. The value returned by \<open>JS_Call\<close> is released when the function is
  left (\<open>JS_AUTORELEASE_VALUE\<close>).
\<close>

definition JavaScriptMethod_invoke_quickjs ::
  "script_call \<Rightarrow> JavaType JavaTypeProvider \<Rightarrow> JavaType JavaScriptMethod \<Rightarrow> JSValue \<Rightarrow> JSValue
     \<Rightarrow> JObjectArrayLocalRef \<Rightarrow> bool \<Rightarrow> (exception + JValue) \<times> event list" where
  "JavaScriptMethod_invoke_quickjs JS_Call provider m jsMethod jsThis javaArgs awaitJsPromise =
     (case JavaScriptMethod_marshalArguments_quickjs m javaArgs of
        (Inl e, tr) \<Rightarrow> (Inl e, tr)
      | (Inr jsArgs, tr) \<Rightarrow>
          (case JS_Call jsMethod jsThis jsArgs of
             Inl thrown \<Rightarrow>
               (Inl (JsException thrown),
                tr @ [Call jsMethod jsThis jsArgs] @ map Release jsArgs)
           | Inr ret \<Rightarrow>
               (let isDeferred' = awaitJsPromise \<and> JS_IsObject ret \<and> hasPropertyStr ret ''then''
                in (if isDeferred' \<and> \<not> isDeferred (m_returnValueType m)
                    then toJava (getDeferredType provider (m_returnValueParameter m)) ret
                    else toJava (m_returnValueType m) ret,
                    tr @ [Call jsMethod jsThis jsArgs, Acquire ret] @ map Release jsArgs
                       @ [Release ret]))))"

section \<open>Registering a script object: the constructor of \<open>JavaScriptObject\<close>\<close>

text \<open>
  \<open>m_methods\<close> maps the identity of a reflected Java method to its call wrapper;
  \<open>emplace\<close> keeps an existing entry. \<open>m_jsHeapPtr\<close> exists in the Duktape flavour
  only and is left empty by the QuickJS one. The warnings about a promise are not
  modelled.
\<close>

record 't JavaScriptObject =
  m_name :: string
  m_methods :: "(nat \<times> 't JavaScriptMethod) list"
  m_jsHeapPtr :: "JSValue option"

definition emplace :: "'k \<Rightarrow> 'v \<Rightarrow> ('k \<times> 'v) list \<Rightarrow> ('k \<times> 'v) list" where
  "emplace k v kvs = (if map_of kvs k = None then kvs @ [(k, v)] else kvs)"

text \<open>\<open>std::string::find(sub) != npos\<close>, used to state what a diagnostic names.\<close>

fun contains :: "string \<Rightarrow> string \<Rightarrow> bool" where
  "contains [] sub = (sub = [])"
| "contains (c # s) sub = (if take (length sub) (c # s) = sub then True else contains s sub)"

subsection \<open>Duktape flavour\<close>

text \<open>
  The sanity check of one method name, entered with the proxied object on top of the
  stack. It leaves the stack as it found it, or pops the object as well and throws.
\<close>

definition checkMethod_duktape ::
  "string \<Rightarrow> string \<Rightarrow> duk_stack \<Rightarrow> (exception + unit) \<times> duk_stack" where
  "checkMethod_duktape objName strMethodName st =
     (case duk_get_prop_string st (- 1) strMethodName of
        (found, st1) \<Rightarrow>
          (if \<not> found then
             pop_and_rethrow 2
               (invalid_argument (''JS global '' @ objName @ '' has no method called '' @ strMethodName))
               st1
           else if \<not> duk_is_callable st1 (- 1) then
             pop_and_rethrow 2
               (invalid_argument
                  (''JS property '' @ objName @ ''.'' @ strMethodName @ '' not callable''))
               st1
           else (case duk_pop_n 1 st1 of Inl e \<Rightarrow> (Inl e, st1) | Inr st2 \<Rightarrow> (Inr (), st2))))"

definition inProxiedMethod :: "string \<Rightarrow> string \<Rightarrow> exception \<Rightarrow> exception" where
  "inProxiedMethod objName strMethodName e =
     invalid_argument
       (''In proxied method '' @ [CHR 0x22] @ objName @ ''.'' @ strMethodName @ [CHR 0x22] @ '': ''
          @ what e)"

text \<open>
  The loop over the methods. Its handler catches \<open>std::invalid_argument\<close> only; any
  other exception leaves the constructor as it is.
\<close>

fun registerMethods_duktape ::
  "(string \<Rightarrow> JClass) \<Rightarrow> 't JavaTypeProvider \<Rightarrow> string \<Rightarrow> bool \<Rightarrow> jsBridgeMethod list
     \<Rightarrow> (nat \<times> 't JavaScriptMethod) list \<Rightarrow> duk_stack
     \<Rightarrow> (exception + (nat \<times> 't JavaScriptMethod) list) \<times> duk_stack" where
  "registerMethods_duktape forName provider objName check [] methods st = (Inr methods, st)"
| "registerMethods_duktape forName provider objName check (method # rest) methods st =
     (case (if check then checkMethod_duktape objName (getName method) st else (Inr (), st)) of
        (Inl e, st') \<Rightarrow> (Inl e, st')
      | (Inr u, st') \<Rightarrow>
          (case JavaScriptMethod_new forName provider method (getName method) False of
             Inl (invalid_argument w) \<Rightarrow>
               pop_and_rethrow 1 (inProxiedMethod objName (getName method) (invalid_argument w)) st'
           | Inl e \<Rightarrow> (Inl e, st')
           | Inr jsMethod \<Rightarrow>
               registerMethods_duktape forName provider objName check rest
                 (emplace (getJavaMethod method) jsMethod methods) st'))"

definition JavaScriptObject_new_duktape ::
  "(string \<Rightarrow> JClass) \<Rightarrow> 't JavaTypeProvider \<Rightarrow> string \<Rightarrow> int \<Rightarrow> jsBridgeMethod list \<Rightarrow> bool
     \<Rightarrow> duk_stack \<Rightarrow> (exception + 't JavaScriptObject) \<times> duk_stack" where
  "JavaScriptObject_new_duktape forName provider strName jsObjectIndex methods check st =
     (if \<not> duk_is_object st jsObjectIndex \<or> duk_is_null st jsObjectIndex then
        (Inl (invalid_argument (''JavaScript object '' @ strName @ '' cannot be accessed'')), st)
      else
        (case duk_get st jsObjectIndex of
           None \<Rightarrow> (Inl (duk_error ''invalid index''), st)
         | Some jsHeapPtr \<Rightarrow>
             (case registerMethods_duktape forName provider strName check methods []
                     (st @ [jsHeapPtr]) of
                (Inl e, st') \<Rightarrow> (Inl e, st')
              | (Inr ms, st') \<Rightarrow>
                  (case duk_pop_n 1 st' of
                     Inl e \<Rightarrow> (Inl e, st')
                   | Inr st'' \<Rightarrow>
                       (Inr \<lparr> m_name = strName, m_methods = ms, m_jsHeapPtr = Some jsHeapPtr \<rparr>,
                        st'')))))"

subsection \<open>QuickJS flavour\<close>

definition checkMethod_quickjs :: "string \<Rightarrow> JSValue \<Rightarrow> string \<Rightarrow> exception + unit" where
  "checkMethod_quickjs objName jsObjectValue strMethodName =
     (let methodValue = JS_GetPropertyStr jsObjectValue strMethodName in
      if JS_IsUndefined methodValue then
        Inl (invalid_argument (''JS global '' @ objName @ '' has no method called '' @ strMethodName))
      else if \<not> JS_IsFunction methodValue then
        Inl (invalid_argument
               (''JS property '' @ objName @ ''.'' @ strMethodName @ '' is not function''))
      else Inr ())"

text \<open>
  The loop over the methods. Its handler catches every \<open>std::exception\<close>; it clears
  \<open>m_methods\<close> before it throws, which no caller can observe.
\<close>

fun registerMethods_quickjs ::
  "(string \<Rightarrow> JClass) \<Rightarrow> 't JavaTypeProvider \<Rightarrow> string \<Rightarrow> JSValue \<Rightarrow> bool \<Rightarrow> jsBridgeMethod list
     \<Rightarrow> (nat \<times> 't JavaScriptMethod) list \<Rightarrow> exception + (nat \<times> 't JavaScriptMethod) list" where
  "registerMethods_quickjs forName provider objName jsObjectValue check [] methods = Inr methods"
| "registerMethods_quickjs forName provider objName jsObjectValue check (method # rest) methods =
     (case (if check then checkMethod_quickjs objName jsObjectValue (getName method) else Inr ()) of
        Inl e \<Rightarrow> Inl e
      | Inr u \<Rightarrow>
          (case JavaScriptMethod_new forName provider method (getName method) False of
             Inl e \<Rightarrow>
               (if is_std_exception e then Inl (inProxiedMethod objName (getName method) e)
                else Inl e)
           | Inr jsMethod \<Rightarrow>
               registerMethods_quickjs forName provider objName jsObjectValue check rest
                 (emplace (getJavaMethod method) jsMethod methods)))"

text \<open>
  The first message is built from \<open>strName\<close> after it has been moved into \<open>m_name\<close>;
  a moved-from \<open>std::string\<close> is taken to be empty.
\<close>

definition JavaScriptObject_new_quickjs ::
  "(string \<Rightarrow> JClass) \<Rightarrow> 't JavaTypeProvider \<Rightarrow> string \<Rightarrow> JSValue \<Rightarrow> jsBridgeMethod list \<Rightarrow> bool
     \<Rightarrow> exception + 't JavaScriptObject" where
  "JavaScriptObject_new_quickjs forName provider strName jsObjectValue methods check =
     (if \<not> JS_IsObject jsObjectValue \<or> JS_IsNull jsObjectValue then
        Inl (invalid_argument
               (''Cannot register '' @ [] @ ''. It does not exist or is not a valid object.''))
      else
        (case registerMethods_quickjs forName provider strName jsObjectValue check methods [] of
           Inl e \<Rightarrow> Inl e
         | Inr ms \<Rightarrow> Inr \<lparr> m_name = strName, m_methods = ms, m_jsHeapPtr = None \<rparr>))"

section \<open>Sample reflection data\<close>

text \<open>
  Concrete classes and types on which the definitions above are evaluated: the Kotlin
  types \<open>IntArray\<close> (the type of a \<open>vararg Int\<close> parameter), \<open>String\<close>,
  \<open>Array<String>\<close>, a function type whose member lookup throws and one whose lookup
  completes, and a Java class \<open>Tool\<close> with a public static method \<open>invoke\<close>, which
  \<open>Class.getMethods\<close> lists and \<open>KClass.memberFunctions\<close> does not. The
  constructors of \<open>Method\<close> either never throw, or the one that takes a Kotlin
  function does.
\<close>

definition Method_init_ok :: "Method \<Rightarrow> Throwable option" where
  "Method_init_ok m = None"

fun Method_init_kotlin_throws :: "Method \<Rightarrow> Throwable option" where
  "Method_init_kotlin_throws (Method_KFunction f b) =
     Some (Throwable ''UnsupportedOperationException'')"
| "Method_init_kotlin_throws m = None"

definition sample_forName :: "string \<Rightarrow> JClass" where
  "sample_forName n = JClass n False None (Inr []) None"

definition int_class :: JClass where
  "int_class = JClass ''int'' True None (Inr []) (Some ''int'')"

definition int_array_class :: JClass where
  "int_array_class = JClass ''[I'' False (Some int_class) (Inr []) (Some ''int[]'')"

definition String_class :: JClass where
  "String_class =
     JClass ''java.lang.String'' False None (Inr [JMethod ''length'']) (Some ''java.lang.String'')"

definition String_array_class :: JClass where
  "String_array_class =
     JClass ''[Ljava.lang.String;'' False (Some String_class) (Inr []) (Some ''java.lang.String[]'')"

definition Function1_class :: JClass where
  "Function1_class =
     JClass ''kotlin.jvm.functions.Function1'' False None (Inr [JMethod ''invoke''])
            (Some ''kotlin.jvm.functions.Function1'')"

definition Tool_class :: JClass where
  "Tool_class = JClass ''Tool'' False None
            (Inr [JMethod ''toString'', JMethod ''invoke'']) (Some ''Tool'')"

definition K_IntArray :: KType where
  "K_IntArray =
     KType (Some (IsKClass int_array_class int_array_class (Inr []))) [] False ''kotlin.IntArray''"

definition K_String :: KType where
  "K_String =
     KType (Some (IsKClass String_class String_class (Inr [KFunction ''length''])))
           [] False ''kotlin.String''"

definition K_Array_String :: KType where
  "K_Array_String =
     KType (Some (IsKClass String_array_class String_array_class (Inr [])))
           [Some K_String] False ''kotlin.Array<kotlin.String>''"

definition K_Function1 :: KType where
  "K_Function1 =
     KType (Some (IsKClass Function1_class Function1_class
                    (Inl (Throwable ''KotlinReflectionInternalError''))))
           [Some K_String, Some K_String] False ''(kotlin.String) -> kotlin.String''"

definition K_Function1_ok :: KType where
  "K_Function1_ok =
     KType (Some (IsKClass Function1_class Function1_class
                    (Inr [KFunction ''equals'', KFunction ''invoke''])))
           [Some K_String, Some K_String] False ''(kotlin.String) -> kotlin.String''"

definition K_Tool :: KType where
  "K_Tool =
     KType (Some (IsKClass Tool_class Tool_class (Inr [KFunction ''toString''])))
           [] False ''Tool''"

definition K_T :: KType where
  "K_T = KType (Some (IsKTypeParameter ''T'')) [] False ''T''"

section \<open>Sample marshallers and methods\<close>

text \<open>
  A marshaller for strings, as a concrete instance of \<open>JavaType\<close>: a script string is
  read into a host string, \<open>null\<close> and \<open>undefined\<close> into null, and anything else is
  rejected; arrays are converted element by element.
\<close>

fun String_toJava :: "JSValue \<Rightarrow> exception + JValue" where
  "String_toJava (JS_STRING s) = Inr (JString s)"
| "String_toJava JS_NULL = Inr JNull"
| "String_toJava JS_UNDEFINED = Inr JNull"
| "String_toJava v = Inl (invalid_argument ''Cannot convert JS value to String'')"

fun String_fromJava :: "JValue \<Rightarrow> exception + JSValue" where
  "String_fromJava (JString s) = Inr (JS_STRING s)"
| "String_fromJava JNull = Inr JS_NULL"
| "String_fromJava v = Inl (invalid_argument ''Cannot convert Java value to String'')"

fun sequence :: "(exception + 'a) list \<Rightarrow> exception + 'a list" where
  "sequence [] = Inr []"
| "sequence (Inl e # xs) = Inl e"
| "sequence (Inr x # xs) = (case sequence xs of Inl e \<Rightarrow> Inl e | Inr ys \<Rightarrow> Inr (x # ys))"

fun String_toJavaArray :: "JSValue \<Rightarrow> exception + JValue" where
  "String_toJavaArray (JS_ARRAY vs) =
     (case sequence (map String_toJava vs) of Inl e \<Rightarrow> Inl e | Inr xs \<Rightarrow> Inr (JArray xs))"
| "String_toJavaArray v = Inl (invalid_argument ''Cannot convert JS value to array'')"

fun String_fromJavaArray :: "JValue \<Rightarrow> exception + JSValue" where
  "String_fromJavaArray (JArray xs) =
     (case sequence (map String_fromJava xs) of Inl e \<Rightarrow> Inl e | Inr vs \<Rightarrow> Inr (JS_ARRAY vs))"
| "String_fromJavaArray v = Inl (invalid_argument ''Cannot convert Java value to array'')"

definition String_type :: JavaType where
  "String_type =
     \<lparr> toJava = String_toJava, toJavaArray = String_toJavaArray,
       fromJava = String_fromJava, fromJavaArray = String_fromJavaArray,
       isDeferred = False \<rparr>"

text \<open>
  Two host methods: \<open>concat(String, String)\<close> and the variadic
  \<open>join(String, String...)\<close>. Their bodies return the number of loaded arguments that
  are not null, which is enough to see what the body was called with.
\<close>

definition sample_body_quickjs :: "JValue list \<Rightarrow> exception + JSValue" where
  "sample_body_quickjs args = Inr (JS_NUMBER (int (length (filter (\<lambda>a. a \<noteq> JNull) args))))"

definition sample_body_duktape ::
  "JValue list \<Rightarrow> duk_stack \<Rightarrow> (exception + int) \<times> duk_stack" where
  "sample_body_duktape args st =
     (Inr 1, st @ [JS_NUMBER (int (length (filter (\<lambda>a. a \<noteq> JNull) args)))])"

definition concat_method :: "'b \<Rightarrow> (JavaType, 'b) JavaMethod" where
  "concat_method body =
     \<lparr> m_methodName = ''concat'', m_isLambda = False, m_isVarArgs = False,
       m_argumentTypes = [String_type, String_type], m_returnValueType = String_type,
       m_methodBody = body \<rparr>"

definition join_method :: "'b \<Rightarrow> (JavaType, 'b) JavaMethod" where
  "join_method body =
     \<lparr> m_methodName = ''join'', m_isLambda = False, m_isVarArgs = True,
       m_argumentTypes = [String_type, String_type], m_returnValueType = String_type,
       m_methodBody = body \<rparr>"

text \<open>
  A provider that records what it is asked for: the marshaller it makes is the pair of
  the parameter and the \<open>boxed\<close> flag of the request.
\<close>

definition recording_provider :: "(Parameter option \<times> bool) JavaTypeProvider" where
  "recording_provider =
     \<lparr> makeUniqueType = (\<lambda>p boxed. Inr (p, boxed)), getDeferredType = (\<lambda>p. (p, True)) \<rparr>"

text \<open>
  The reflected methods \<open>compute(String)\<close>, \<open>render(String)\<close> and the variadic
  \<open>join(String, vararg String)\<close> of a script interface.
\<close>

definition compute_reflected :: jsBridgeMethod where
  "compute_reflected =
     \<lparr> getName = ''compute'', isVarArgs = False,
       getParameters = [Parameter_KType sample_forName K_String],
       getReturnParameter = Some (Parameter_KType sample_forName K_String),
       getJavaMethod = 1 \<rparr>"

definition render_reflected :: jsBridgeMethod where
  "render_reflected =
     \<lparr> getName = ''render'', isVarArgs = False,
       getParameters = [Parameter_KType sample_forName K_String],
       getReturnParameter = Some (Parameter_KType sample_forName K_String),
       getJavaMethod = 2 \<rparr>"

definition join_reflected :: jsBridgeMethod where
  "join_reflected =
     \<lparr> getName = ''join'', isVarArgs = True,
       getParameters = [Parameter_KType sample_forName K_String,
                        Parameter_KType sample_forName K_Array_String],
       getReturnParameter = Some (Parameter_KType sample_forName K_String),
       getJavaMethod = 3 \<rparr>"

text \<open>
  Script objects: one without any method, one whose \<open>compute\<close> is a function and whose
  \<open>render\<close> is a number.
\<close>

definition empty_api :: JSValue where
  "empty_api = JS_OBJECT False []"

definition half_api :: JSValue where
  "half_api = JS_OBJECT False [(''compute'', JS_OBJECT True []), (''render'', JS_NUMBER 7)]"

text \<open>
  A marshaller for the host's asynchronous results, a provider that hands out the string
  marshaller and that one, and an engine in which calling a function object returns the
  value of its property \<open>returns\<close> and calling anything else throws.
\<close>

definition Deferred_type :: JavaType where
  "Deferred_type =
     \<lparr> toJava = (\<lambda>v. Inr (JObject 1)), toJavaArray = (\<lambda>v. Inr (JArray [])),
       fromJava = (\<lambda>v. Inr JS_UNDEFINED), fromJavaArray = (\<lambda>v. Inr (JS_ARRAY [])),
       isDeferred = True \<rparr>"

definition sample_provider :: "JavaType JavaTypeProvider" where
  "sample_provider =
     \<lparr> makeUniqueType = (\<lambda>p boxed. Inr String_type), getDeferredType = (\<lambda>p. Deferred_type) \<rparr>"

fun sample_call :: "JSValue \<Rightarrow> JSValue \<Rightarrow> JSValue list \<Rightarrow> JSValue + JSValue" where
  "sample_call (JS_OBJECT True ps) this args = Inr (JS_GetPropertyStr (JS_OBJECT True ps) ''returns'')"
| "sample_call f this args = Inl (JS_STRING ''TypeError: not a function'')"

definition thenable :: JSValue where
  "thenable = JS_OBJECT False [(''then'', JS_OBJECT True [])]"

definition async_function :: JSValue where
  "async_function = JS_OBJECT True [(''returns'', thenable)]"

definition echo_function :: JSValue where
  "echo_function = JS_OBJECT True [(''returns'', JS_STRING ''ok'')]"

definition script_method :: "bool \<Rightarrow> bool \<Rightarrow> JavaType JavaScriptMethod" where
  "script_method lambda varArgs =
     \<lparr> m_methodName = ''run'', m_isLambda = lambda, m_isVarArgs = varArgs,
       m_argumentTypes = [String_type, String_type], m_returnValueType = String_type,
       m_returnValueParameter = Some (Parameter_KType sample_forName K_String) \<rparr>"




section \<open>Element descriptors and entry-point resolution\<close>

lemma firstOrNullWhere_None: "firstOrNullWhere P xs = None \<longleftrightarrow> (\<forall>x \<in> set xs. \<not> P x)"
  by (induction xs) (auto simp: firstOrNullWhere_def firstOrNull_def split: list.splits)

lemma javaInvoke_None:
  "javaInvoke p = Inr None \<longleftrightarrow>
     (\<forall>c. javaClass p = Some c
        \<longrightarrow> (\<exists>ms. jc_methods c = Inr ms \<and> (\<forall>m \<in> set ms. jm_name m \<noteq> ''invoke'')))"
  by (cases "javaClass p")
    (auto simp: javaInvoke_def firstOrNullWhere_None split: sum.splits)

lemma firstOrNullWhere_Some: "firstOrNullWhere P xs = Some x \<Longrightarrow> P x \<and> x \<in> set xs"
proof -
  assume "firstOrNullWhere P xs = Some x"
  then have "x \<in> set (filter P xs)"
    by (cases "filter P xs") (simp_all add: firstOrNullWhere_def firstOrNull_def)
  then show ?thesis by simp
qed

lemma javaInvoke_Some: "javaInvoke p = Inr (Some jm) \<Longrightarrow> jm_name jm = ''invoke''"
  by (auto simp: javaInvoke_def split: option.splits sum.splits dest: firstOrNullWhere_Some)

lemma invokeMethod_fallback_None:
  "invokeMethod_fallback init p = Inr None \<longleftrightarrow> javaInvoke p = Inr None"
  by (auto simp: invokeMethod_fallback_def Method_new_def split: option.splits sum.splits)

lemma invokeMethod_fallback_Inl:
  "invokeMethod_fallback init p = Inl thrown \<longleftrightarrow>
     javaInvoke p = Inl thrown
     \<or> (\<exists>jm. javaInvoke p = Inr (Some jm)
            \<and> init (case kotlinType p of None \<Rightarrow> Method_Java jm
                     | Some t \<Rightarrow> Method_JavaGeneric jm (arguments t) True) = Some thrown)"
  by (auto simp: invokeMethod_fallback_def Method_new_def split: option.splits sum.splits)

text \<open>
  C7, as stated, fails: for the parameter of Kotlin type \<open>IntArray\<close> (a
  \<open>vararg Int\<close>) \<open>getGenericParameter\<close> returns null, although the raw class
  \<open>int[]\<close> has a component type; and \<open>getComponentType\<close> returns null for a
  \<open>String\<close> parameter instead of the erased \<open>java.lang.Object\<close> descriptor.
\<close>

theorem element_descriptor_absent:
  "getGenericParameter sample_forName (Parameter_KType sample_forName K_IntArray) = None
   \<and> javaComponentType (Parameter_KType sample_forName K_IntArray) = Some int_class
   \<and> getComponentType sample_forName (Parameter_KType sample_forName K_String) = None"
  by (simp add: getGenericParameter_def getComponentType_def javaComponentType_def
      Parameter_KType_def K_IntArray_def K_String_def firstArgumentType_def firstOrNull_def
      startsWith_def int_array_class_def String_class_def)

text \<open>
  C7, amended. \<open>getGenericParameter\<close> returns the erased \<open>java.lang.Object\<close>
  descriptor when the parameter has no Kotlin type; with a Kotlin type it returns the
  descriptor of the first generic type argument when there is one, and is absent (null)
  exactly when there is none. \<open>getComponentType\<close> returns the raw component type
  whenever that is primitive; otherwise, without a Kotlin type, the raw component type if
  one exists and else \<open>java.lang.Object\<close>; with a Kotlin type, the first generic
  argument's descriptor, and it is absent exactly when there is none.
\<close>

theorem element_descriptor_resolution:
  "(getGenericParameter forName p = None
      \<longleftrightarrow> (\<exists>t. kotlinType p = Some t \<and> firstArgumentType t = None))
   \<and> (getComponentType forName p = None
      \<longleftrightarrow> (\<exists>t. kotlinType p = Some t \<and> firstArgumentType t = None)
          \<and> (\<forall>c. javaComponentType p = Some c \<longrightarrow> \<not> isPrimitive c))
   \<and> (kotlinType p = None
      \<longrightarrow> getGenericParameter forName p = Some (Parameter_JClass Any_class_java))
   \<and> (\<forall>t g. kotlinType p = Some t \<and> firstArgumentType t = Some g
      \<longrightarrow> getGenericParameter forName p = Some (Parameter_KType forName g))
   \<and> (\<forall>c. javaComponentType p = Some c \<and> isPrimitive c
      \<longrightarrow> getComponentType forName p = Some (Parameter_JClass c))
   \<and> (\<forall>c. kotlinType p = None \<and> javaComponentType p = Some c
      \<longrightarrow> getComponentType forName p = Some (Parameter_JClass c))
   \<and> (kotlinType p = None \<and> javaComponentType p = None
      \<longrightarrow> getComponentType forName p = Some (Parameter_JClass Any_class_java))
   \<and> (\<forall>t g. kotlinType p = Some t \<and> firstArgumentType t = Some g
          \<and> (\<forall>c. javaComponentType p = Some c \<longrightarrow> \<not> isPrimitive c)
      \<longrightarrow> getComponentType forName p = Some (Parameter_KType forName g))"
  by (auto simp: getGenericParameter_def getComponentType_def split: option.splits if_splits)

theorem element_descriptor_resolution_witness:
  "getGenericParameter sample_forName (Parameter_JClass String_array_class)
     = Some (Parameter_JClass Any_class_java)
   \<and> getComponentType sample_forName (Parameter_JClass String_array_class)
     = Some (Parameter_JClass String_class)
   \<and> getComponentType sample_forName (Parameter_JClass String_class)
     = Some (Parameter_JClass Any_class_java)
   \<and> getGenericParameter sample_forName (Parameter_KType sample_forName K_Array_String)
     = Some (Parameter_KType sample_forName K_String)
   \<and> getComponentType sample_forName (Parameter_KType sample_forName K_Array_String)
     = Some (Parameter_KType sample_forName K_String)
   \<and> getComponentType sample_forName (Parameter_KType sample_forName K_IntArray)
     = Some (Parameter_JClass int_class)"
proof -
  let ?java = "Parameter_JClass String_array_class"
  let ?plain = "Parameter_JClass String_class"
  let ?generic = "Parameter_KType sample_forName K_Array_String"
  let ?prim = "Parameter_KType sample_forName K_IntArray"
  have no_kotlin: "kotlinType ?java = None" "kotlinType ?plain = None"
    by (simp_all add: Parameter_JClass_def)
  have comp_java: "javaComponentType ?java = Some String_class"
    by (simp add: javaComponentType_def Parameter_JClass_def String_array_class_def)
  have comp_plain: "javaComponentType ?plain = None"
    by (simp add: javaComponentType_def Parameter_JClass_def String_class_def)
  have kotlin: "kotlinType ?generic = Some K_Array_String"
    by (simp add: Parameter_KType_def)
  have arg: "firstArgumentType K_Array_String = Some K_String"
    by (simp add: firstArgumentType_def firstOrNull_def K_Array_String_def)
  have comp_generic: "javaComponentType ?generic = Some String_class"
    by (simp add: javaComponentType_def Parameter_KType_def K_Array_String_def
        String_array_class_def startsWith_def asKClass_def firstArgumentType_def
        firstOrNull_def K_String_def String_class_def)
  have not_prim: "\<not> isPrimitive String_class"
    by (simp add: String_class_def)
  have comp_prim: "javaComponentType ?prim = Some int_class" "isPrimitive int_class"
    by (simp_all add: javaComponentType_def Parameter_KType_def K_IntArray_def
        int_array_class_def startsWith_def int_class_def)
  show ?thesis
    using element_descriptor_resolution [of sample_forName ?java]
      element_descriptor_resolution [of sample_forName ?plain]
      element_descriptor_resolution [of sample_forName ?generic]
      element_descriptor_resolution [of sample_forName ?prim]
      no_kotlin comp_java comp_plain kotlin arg comp_generic not_prim comp_prim
    by simp
qed

lemma callable_wrapper_views_agree: "isCallableWrapper p \<Longrightarrow> views_agree p"
  by (auto simp: isCallableWrapper_def views_agree_def split: option.splits sum.splits)

lemma callable_wrapper_samples:
  "isCallableWrapper (Parameter_KType sample_forName K_Function1)
   \<and> isCallableWrapper (Parameter_KType sample_forName K_Function1_ok)
   \<and> isCallableWrapper (Parameter_JClass Function1_class)
   \<and> \<not> isCallableWrapper (Parameter_KType sample_forName K_String)"
  by (simp add: isCallableWrapper_def javaInvoke_def kotlinInvoke_def Parameter_KType_def
      Parameter_JClass_def K_Function1_def K_Function1_ok_def K_String_def Function1_class_def
      String_class_def asKClass_def startsWith_def firstOrNullWhere_def firstOrNull_def)

text \<open>
  C8. For a parameter with a Kotlin type the member-function lookup of Kotlin reflection
  is attempted first: when it completes with a function named \<open>invoke\<close> and the
  entry point can be built from it, that is the result. Whatever the lookup throws, and
  whatever \<open>Method(it, true)\<close> throws, is caught: the result is then that of the scan
  of the raw Java class (as it is without a Kotlin type), so that a throwable leaving
  \<open>invokeMethod\<close> is one raised by that scan or by the constructor called after it,
  and none leaves when these two do not throw. The scan looks for the first method
  literally named \<open>invoke\<close> and is null exactly when the class is absent or has no such
  method. Whenever the two views of the class agree, as they do for a callable
  wrapper, \<open>invokeMethod\<close> is therefore null exactly when no such method exists; for
  a callable wrapper it is never null.
\<close>

theorem invokeMethod_resolution:
  "(\<forall>t f. kotlinType p = Some t \<and> kotlinInvoke t = Inr (Some f)
          \<and> init (Method_KFunction f True) = None
      \<longrightarrow> invokeMethod init p = Inr (Some (Method_KFunction f True)))
   \<and> (\<forall>t thrown. kotlinType p = Some t \<and> kotlinInvoke t = Inl thrown
      \<longrightarrow> invokeMethod init p = invokeMethod_fallback init p)
   \<and> (\<forall>t f thrown. kotlinType p = Some t \<and> kotlinInvoke t = Inr (Some f)
          \<and> init (Method_KFunction f True) = Some thrown
      \<longrightarrow> invokeMethod init p = invokeMethod_fallback init p)
   \<and> (kotlinType p = None \<longrightarrow> invokeMethod init p = invokeMethod_fallback init p)
   \<and> (\<forall>thrown. invokeMethod init p = Inl thrown
      \<longrightarrow> invokeMethod_fallback init p = Inl thrown
          \<and> (javaInvoke p = Inl thrown
               \<or> (\<exists>jm. javaInvoke p = Inr (Some jm)
                      \<and> init (case kotlinType p of None \<Rightarrow> Method_Java jm
                               | Some t \<Rightarrow> Method_JavaGeneric jm (arguments t) True)
                          = Some thrown)))
   \<and> ((\<forall>c. javaClass p = Some c \<longrightarrow> (\<exists>ms. jc_methods c = Inr ms))
        \<and> (\<forall>jm. init (Method_Java jm) = None)
        \<and> (\<forall>jm args. init (Method_JavaGeneric jm args True) = None)
      \<longrightarrow> (\<exists>r. invokeMethod init p = Inr r))
   \<and> (\<forall>jm. javaInvoke p = Inr (Some jm)
      \<longrightarrow> jm_name jm = ''invoke''
          \<and> invokeMethod_fallback init p
              = (case Method_new init (case kotlinType p of None \<Rightarrow> Method_Java jm
                                       | Some t \<Rightarrow> Method_JavaGeneric jm (arguments t) True) of
                   Inl thrown \<Rightarrow> Inl thrown
                 | Inr m \<Rightarrow> Inr (Some m)))
   \<and> (invokeMethod_fallback init p = Inr None \<longleftrightarrow> javaInvoke p = Inr None)
   \<and> (javaInvoke p = Inr None
      \<longleftrightarrow> (\<forall>c. javaClass p = Some c
             \<longrightarrow> (\<exists>ms. jc_methods c = Inr ms \<and> (\<forall>m \<in> set ms. jm_name m \<noteq> ''invoke''))))
   \<and> (views_agree p \<longrightarrow> (invokeMethod init p = Inr None \<longleftrightarrow> javaInvoke p = Inr None))
   \<and> (isCallableWrapper p \<longrightarrow> views_agree p \<and> invokeMethod init p \<noteq> Inr None)"
proof -
  have first: "\<forall>t f. kotlinType p = Some t \<and> kotlinInvoke t = Inr (Some f)
          \<and> init (Method_KFunction f True) = None
      \<longrightarrow> invokeMethod init p = Inr (Some (Method_KFunction f True))"
    by (simp add: invokeMethod_def Method_new_def)
  have caught: "\<forall>t thrown. kotlinType p = Some t \<and> kotlinInvoke t = Inl thrown
      \<longrightarrow> invokeMethod init p = invokeMethod_fallback init p"
    by (simp add: invokeMethod_def)
  have caught': "\<forall>t f thrown. kotlinType p = Some t \<and> kotlinInvoke t = Inr (Some f)
          \<and> init (Method_KFunction f True) = Some thrown
      \<longrightarrow> invokeMethod init p = invokeMethod_fallback init p"
    by (simp add: invokeMethod_def Method_new_def)
  have java_only: "kotlinType p = None \<longrightarrow> invokeMethod init p = invokeMethod_fallback init p"
    by (simp add: invokeMethod_def)
  have origin: "invokeMethod_fallback init p = Inl thrown" if "invokeMethod init p = Inl thrown"
    for thrown
    using that by (auto simp: invokeMethod_def Method_new_def split: option.splits sum.splits)
  have propagated: "\<forall>thrown. invokeMethod init p = Inl thrown
      \<longrightarrow> invokeMethod_fallback init p = Inl thrown
          \<and> (javaInvoke p = Inl thrown
               \<or> (\<exists>jm. javaInvoke p = Inr (Some jm)
                      \<and> init (case kotlinType p of None \<Rightarrow> Method_Java jm
                               | Some t \<Rightarrow> Method_JavaGeneric jm (arguments t) True)
                          = Some thrown))"
    using origin invokeMethod_fallback_Inl [of init p] by blast
  have returns: "(\<forall>c. javaClass p = Some c \<longrightarrow> (\<exists>ms. jc_methods c = Inr ms))
        \<and> (\<forall>jm. init (Method_Java jm) = None)
        \<and> (\<forall>jm args. init (Method_JavaGeneric jm args True) = None)
      \<longrightarrow> (\<exists>r. invokeMethod init p = Inr r)"
  proof (intro impI, elim conjE)
    assume scan: "\<forall>c. javaClass p = Some c \<longrightarrow> (\<exists>ms. jc_methods c = Inr ms)"
      and j: "\<forall>jm. init (Method_Java jm) = None"
      and g: "\<forall>jm args. init (Method_JavaGeneric jm args True) = None"
    have "invokeMethod_fallback init p \<noteq> Inl thrown" for thrown
      unfolding invokeMethod_fallback_Inl using scan j g
      by (auto simp: javaInvoke_def split: option.splits sum.splits)
    then have "invokeMethod init p \<noteq> Inl thrown" for thrown
      using origin by blast
    then show "\<exists>r. invokeMethod init p = Inr r"
      by (cases "invokeMethod init p") auto
  qed
  have found: "\<forall>jm. javaInvoke p = Inr (Some jm)
      \<longrightarrow> jm_name jm = ''invoke''
          \<and> invokeMethod_fallback init p
              = (case Method_new init (case kotlinType p of None \<Rightarrow> Method_Java jm
                                       | Some t \<Rightarrow> Method_JavaGeneric jm (arguments t) True) of
                   Inl thrown \<Rightarrow> Inl thrown
                 | Inr m \<Rightarrow> Inr (Some m))"
    using javaInvoke_Some [of p]
    by (auto simp: invokeMethod_fallback_def split: option.splits sum.splits)
  have agree: "views_agree p \<longrightarrow> (invokeMethod init p = Inr None \<longleftrightarrow> javaInvoke p = Inr None)"
    using invokeMethod_fallback_None [of init p]
    by (auto simp: views_agree_def invokeMethod_def Method_new_def
        split: option.splits sum.splits)
  have wrapper: "isCallableWrapper p \<longrightarrow> views_agree p \<and> invokeMethod init p \<noteq> Inr None"
    using agree callable_wrapper_views_agree [of p] by (auto simp: isCallableWrapper_def)
  show ?thesis
    using first caught caught' java_only propagated returns found
      invokeMethod_fallback_None [of init p] javaInvoke_None [of p] agree wrapper
    by blast
qed

theorem invokeMethod_resolution_witness:
  "invokeMethod Method_init_ok (Parameter_KType sample_forName K_Function1_ok)
     = Inr (Some (Method_KFunction (KFunction ''invoke'') True))
   \<and> invokeMethod Method_init_ok (Parameter_KType sample_forName K_Function1)
     = Inr (Some (Method_JavaGeneric (JMethod ''invoke'') [Some K_String, Some K_String] True))
   \<and> invokeMethod Method_init_kotlin_throws (Parameter_KType sample_forName K_Function1_ok)
     = Inr (Some (Method_JavaGeneric (JMethod ''invoke'') [Some K_String, Some K_String] True))
   \<and> invokeMethod Method_init_ok (Parameter_JClass Function1_class)
     = Inr (Some (Method_Java (JMethod ''invoke'')))
   \<and> isCallableWrapper (Parameter_KType sample_forName K_Function1)
   \<and> invokeMethod Method_init_kotlin_throws (Parameter_KType sample_forName K_Function1)
       \<noteq> Inr None
   \<and> views_agree (Parameter_KType sample_forName K_Function1_ok)
   \<and> invokeMethod Method_init_ok (Parameter_KType sample_forName K_Function1_ok) \<noteq> Inr None
   \<and> views_agree (Parameter_KType sample_forName K_String)
   \<and> invokeMethod Method_init_ok (Parameter_KType sample_forName K_String) = Inr None"
proof -
  let ?crash = "Parameter_KType sample_forName K_Function1"
  let ?ok = "Parameter_KType sample_forName K_Function1_ok"
  let ?java = "Parameter_JClass Function1_class"
  let ?plain = "Parameter_KType sample_forName K_String"
  let ?generic = "Method_JavaGeneric (JMethod ''invoke'') [Some K_String, Some K_String] True"
  have crash: "kotlinType ?crash = Some K_Function1"
    "kotlinInvoke K_Function1 = Inl (Throwable ''KotlinReflectionInternalError'')"
    by (simp_all add: Parameter_KType_def K_Function1_def kotlinInvoke_def asKClass_def)
  have ok: "kotlinType ?ok = Some K_Function1_ok"
    "kotlinInvoke K_Function1_ok = Inr (Some (KFunction ''invoke''))"
    by (simp_all add: Parameter_KType_def K_Function1_ok_def kotlinInvoke_def asKClass_def
        firstOrNullWhere_def firstOrNull_def)
  have init: "Method_init_ok (Method_KFunction (KFunction ''invoke'') True) = None"
    "Method_init_kotlin_throws (Method_KFunction (KFunction ''invoke'') True)
       = Some (Throwable ''UnsupportedOperationException'')"
    by (simp_all add: Method_init_ok_def)
  have scan: "javaInvoke ?crash = Inr (Some (JMethod ''invoke''))"
    "javaInvoke ?ok = Inr (Some (JMethod ''invoke''))"
    "javaInvoke ?java = Inr (Some (JMethod ''invoke''))"
    "javaInvoke ?plain = Inr None"
    by (simp_all add: javaInvoke_def Parameter_KType_def Parameter_JClass_def K_Function1_def
        K_Function1_ok_def K_String_def Function1_class_def String_class_def startsWith_def
        firstOrNullWhere_def firstOrNull_def)
  have types: "kotlinType ?java = None" "arguments K_Function1 = [Some K_String, Some K_String]"
    "arguments K_Function1_ok = [Some K_String, Some K_String]"
    by (simp_all add: Parameter_JClass_def K_Function1_def K_Function1_ok_def)
  have built: "Method_new Method_init_ok ?generic = Inr ?generic"
    "Method_new Method_init_kotlin_throws ?generic = Inr ?generic"
    "Method_new Method_init_ok (Method_Java (JMethod ''invoke''))
       = Inr (Method_Java (JMethod ''invoke''))"
    by (simp_all add: Method_new_def Method_init_ok_def)
  have plain: "kotlinType ?plain = Some K_String" "kotlinInvoke K_String = Inr None"
    by (simp_all add: Parameter_KType_def K_String_def kotlinInvoke_def asKClass_def
        firstOrNullWhere_def firstOrNull_def)
  have agree: "views_agree ?ok" "views_agree ?plain"
    unfolding views_agree_def by (simp_all add: ok plain scan)
  have 1: "invokeMethod Method_init_ok ?ok = Inr (Some (Method_KFunction (KFunction ''invoke'') True))"
    using invokeMethod_resolution [of ?ok Method_init_ok] ok init(1) by blast
  have 2: "invokeMethod Method_init_ok ?crash = invokeMethod_fallback Method_init_ok ?crash"
    "invokeMethod_fallback Method_init_ok ?crash = Inr (Some ?generic)"
    using invokeMethod_resolution [of ?crash Method_init_ok] crash scan(1) types(2) built(1)
    by (blast, simp)
  have 3: "invokeMethod Method_init_kotlin_throws ?ok
             = invokeMethod_fallback Method_init_kotlin_throws ?ok"
    "invokeMethod_fallback Method_init_kotlin_throws ?ok = Inr (Some ?generic)"
    using invokeMethod_resolution [of ?ok Method_init_kotlin_throws] ok init(2) scan(2) types(3)
      built(2)
    by (blast, simp)
  have 4: "invokeMethod Method_init_ok ?java = invokeMethod_fallback Method_init_ok ?java"
    "invokeMethod_fallback Method_init_ok ?java = Inr (Some (Method_Java (JMethod ''invoke'')))"
    using invokeMethod_resolution [of ?java Method_init_ok] types(1) scan(3) built(3)
    by (blast, simp)
  have 5: "invokeMethod Method_init_ok ?ok \<noteq> Inr None"
    "invokeMethod Method_init_ok ?plain = Inr None"
    using invokeMethod_resolution [of ?ok Method_init_ok]
      invokeMethod_resolution [of ?plain Method_init_ok] agree scan(2,4)
    by simp_all
  have wrapper: "isCallableWrapper ?crash"
    unfolding isCallableWrapper_def by (simp add: crash scan)
  have 6: "invokeMethod Method_init_kotlin_throws ?crash \<noteq> Inr None"
    using invokeMethod_resolution [of ?crash Method_init_kotlin_throws] wrapper by blast
  show ?thesis
    using 1 2 3 4 5 6 agree wrapper by simp
qed

text \<open>
  Where the two views disagree the Kotlin view decides: for the Java class \<open>Tool\<close>,
  whose static method \<open>invoke\<close> is no member function, the lookup completes without a
  result and \<open>invokeMethod\<close> is null, which is what its comment announces for a
  parameter that is not a lambda.
\<close>

lemma completed_lookup_is_final:
  "invokeMethod Method_init_ok (Parameter_KType sample_forName K_Tool) = Inr None
   \<and> javaInvoke (Parameter_KType sample_forName K_Tool) = Inr (Some (JMethod ''invoke''))
   \<and> \<not> views_agree (Parameter_KType sample_forName K_Tool)"
  by (simp add: invokeMethod_def javaInvoke_def views_agree_def kotlinInvoke_def
      Parameter_KType_def K_Tool_def asKClass_def firstOrNullWhere_def firstOrNull_def
      Tool_class_def startsWith_def)

section \<open>Argument handling of \<open>JavaMethod::invoke\<close>\<close>

lemma tooManyParameters_concat:
  "tooManyParameters ''concat'' 2 3
     = ''Too many parameters when calling Java method concat (expected: 2, received: 3)''"
  by code_simp

text \<open>
  C1. When a method is not variadic and more script arguments are supplied than it
  declares parameters, both flavours of \<open>JavaMethod::invoke\<close> throw
  \<open>std::invalid_argument\<close> with the "Too many parameters" message. The outcome is
  the same whatever the method body is, and the Duktape stack is left untouched: the
  foreign call is not made and no argument is loaded.
\<close>

theorem too_many_arguments_rejected:
  "(\<not> m_isVarArgs md \<and> length st > length (m_argumentTypes md)
      \<longrightarrow> JavaMethod_invoke_duktape (md\<lparr>m_methodBody := bodyD\<rparr>) st
          = (Inl (invalid_argument (tooManyParameters (m_methodName md)
                (int (length (m_argumentTypes md))) (int (length st)))), st))
   \<and> (\<not> m_isVarArgs mq \<and> length argv > length (m_argumentTypes mq)
      \<longrightarrow> JavaMethod_invoke_quickjs (mq\<lparr>m_methodBody := bodyQ\<rparr>) argv
          = Inl (invalid_argument (tooManyParameters (m_methodName mq)
                (int (length (m_argumentTypes mq))) (int (length argv)))))"
  by (simp add: JavaMethod_invoke_duktape_def JavaMethod_loadArguments_duktape_def
      JavaMethod_invoke_quickjs_def JavaMethod_loadArguments_quickjs_def
      minArgs_duktape_def minArgs_quickjs_def Let_def)

theorem too_many_arguments_rejected_witness:
  "JavaMethod_invoke_duktape (concat_method sample_body_duktape)
       [JS_STRING ''a'', JS_STRING ''b'', JS_STRING ''c'']
     = (Inl (invalid_argument
          ''Too many parameters when calling Java method concat (expected: 2, received: 3)''),
        [JS_STRING ''a'', JS_STRING ''b'', JS_STRING ''c''])
   \<and> JavaMethod_invoke_quickjs (concat_method sample_body_quickjs)
       [JS_STRING ''a'', JS_STRING ''b'', JS_STRING ''c'']
     = Inl (invalid_argument
          ''Too many parameters when calling Java method concat (expected: 2, received: 3)'')"
proof -
  let ?st = "[JS_STRING ''a'', JS_STRING ''b'', JS_STRING ''c'']"
  have d: "\<not> m_isVarArgs (concat_method sample_body_duktape)
      \<and> length ?st > length (m_argumentTypes (concat_method sample_body_duktape))"
    by (simp add: concat_method_def)
  have q: "\<not> m_isVarArgs (concat_method sample_body_quickjs)
      \<and> length ?st > length (m_argumentTypes (concat_method sample_body_quickjs))"
    by (simp add: concat_method_def)
  have upd: "(concat_method sample_body_duktape)\<lparr>m_methodBody := sample_body_duktape\<rparr>
      = concat_method sample_body_duktape"
    "(concat_method sample_body_quickjs)\<lparr>m_methodBody := sample_body_quickjs\<rparr>
      = concat_method sample_body_quickjs"
    by (simp_all add: concat_method_def)
  have name: "m_methodName (concat_method sample_body_duktape) = ''concat''"
    "m_methodName (concat_method sample_body_quickjs) = ''concat''"
    "length (m_argumentTypes (concat_method sample_body_duktape)) = 2"
    "length (m_argumentTypes (concat_method sample_body_quickjs)) = 2"
    by (simp_all add: concat_method_def)
  from too_many_arguments_rejected
    [of "concat_method sample_body_duktape" ?st sample_body_duktape
        "concat_method sample_body_quickjs" ?st sample_body_quickjs]
  show ?thesis
    using d q unfolding upd name by (simp add: tooManyParameters_concat)
qed

text \<open>
  C2 at a failing input, in the Duktape flavour: the variadic method
  \<open>join(String, String...)\<close> called without any script argument. \<open>minArgs\<close> is 1, so
  one fixed parameter is missing. Before the loop that would set it to null,
  \<open>argCount - minArgs\<close> is evaluated in \<open>size_t\<close> and wraps around; \<open>popArray\<close> is
  asked for that many values of an empty stack, and the method body is never reached.
\<close>

theorem missing_argument_variadic_duktape:
  "minArgs_duktape (join_method sample_body_duktape) = 1
   \<and> size_t_minus (length ([] :: duk_stack)) (minArgs_duktape (join_method sample_body_duktape))
       = 18446744073709551615
   \<and> JavaMethod_invoke_duktape (join_method sample_body_duktape) []
       = (Inl (duk_error ''invalid count''), [])"
  by (simp add: JavaMethod_invoke_duktape_def JavaMethod_loadArguments_duktape_def
      join_method_def minArgs_duktape_def size_t_minus_def SIZE_WIDTH_def vector_back_def
      popArray_def)

text \<open>
  C9 at a failing input: for the same call the two flavours do not agree. QuickJS
  loads null for the missing fixed parameter and an empty array for the variadic one, and
  calls the method body with them; Duktape asks \<open>popArray\<close> for
  \<open>2\<^sup>6\<^sup>4 - 1\<close> trailing values and throws.
\<close>

theorem flavours_differ_on_missing_variadic:
  "JavaMethod_loadArguments_quickjs (join_method sample_body_quickjs) []
       = Inr [JNull, JArray []]
   \<and> JavaMethod_invoke_quickjs (join_method sample_body_quickjs) [] = Inr (JS_NUMBER 1)
   \<and> JavaMethod_loadArguments_duktape (join_method sample_body_duktape) []
       = (Inl (duk_error ''invalid count''), [])
   \<and> minArgs_quickjs (join_method sample_body_quickjs)
       = int (minArgs_duktape (join_method sample_body_duktape))"
  by (simp add: JavaMethod_invoke_quickjs_def JavaMethod_loadArguments_quickjs_def
      JavaMethod_loadArguments_duktape_def join_method_def minArgs_quickjs_def
      minArgs_duktape_def size_t_minus_def SIZE_WIDTH_def vector_back_def vector_at_def
      popArray_def collectVarArgs_def JS_NewArray_def String_type_def sample_body_quickjs_def)

subsection \<open>Closed forms of the two ways of loading\<close>

text \<open>
  In the lemmas below \<open>vals\<close> are the host values of the supplied script arguments.
  Parameter \<open>i\<close> is loaded with \<open>vals ! i\<close> where a script argument was supplied and
  with null where it is missing.
\<close>

lemma vector_at_nth: "i < length xs \<Longrightarrow> vector_at xs (int i) = Inr (xs ! i)"
  by (simp add: vector_at_def)

lemma take_Suc_list_update: "j < length xs \<Longrightarrow> take (Suc j) (xs[j := v]) = take j xs @ [v]"
  by (simp add: take_Suc_conv_app_nth)

lemma loadFixed_quickjs_ok:
  assumes conv: "\<forall>i<k. i < length argv \<longrightarrow> toJava (types ! i) (argv ! i) = Inr (vals ! i)"
    and k: "k \<le> length types" and len: "length args = length types" and j: "j \<le> k"
  shows "loadFixed_quickjs types argv [j..<k] args
           = Inr (take j args @ map (\<lambda>i. if i < length argv then vals ! i else JNull) [j..<k]
                    @ drop k args)"
  using j len
proof (induction "k - j" arbitrary: j args)
  case 0
  then show ?case by simp
next
  case (Suc d)
  then have jk: "j < k" by simp
  then have jt: "j < length types" "j < length args" using k Suc.prems by simp_all
  have upt: "[j..<k] = j # [Suc j..<k]" using jk by (simp add: upt_conv_Cons)
  let ?v = "if j < length argv then vals ! j else JNull"
  have step: "loadFixed_quickjs types argv [j..<k] args
      = loadFixed_quickjs types argv [Suc j..<k] (args[j := ?v])"
    unfolding upt using conv jk by (simp add: vector_at_nth [OF jt(1)])
  have IH: "loadFixed_quickjs types argv [Suc j..<k] (args[j := ?v])
      = Inr (take (Suc j) (args[j := ?v])
               @ map (\<lambda>i. if i < length argv then vals ! i else JNull) [Suc j..<k]
               @ drop k (args[j := ?v]))"
  proof (rule Suc.hyps(1))
    show "d = k - Suc j" using Suc.hyps(2) by simp
    show "Suc j \<le> k" using jk by simp
    show "length (args[j := ?v]) = length types" using Suc.prems by simp
  qed
  have "drop k (args[j := ?v]) = drop k args" using jk by simp
  then have "loadFixed_quickjs types argv [j..<k] args
      = Inr ((take j args @ [?v])
               @ map (\<lambda>i. if i < length argv then vals ! i else JNull) [Suc j..<k]
               @ drop k args)"
    using step IH take_Suc_list_update [OF jt(2), of ?v] by simp
  also have "(take j args @ [?v])
               @ map (\<lambda>i. if i < length argv then vals ! i else JNull) [Suc j..<k]
               @ drop k args
      = take j args @ map (\<lambda>i. if i < length argv then vals ! i else JNull) [j..<k]
          @ drop k args"
    unfolding upt by simp
  finally show ?case .
qed

lemma loadFixed_duktape_ok:
  assumes conv: "\<forall>i<k. i < length argv \<longrightarrow> toJava (types ! i) (argv ! i) = Inr (vals ! i)"
    and k: "k \<le> length types" and len: "length args = length types"
  shows "loadFixed_duktape types (length argv) (rev [0..<k]) args (take k argv)
           = (Inr (map (\<lambda>i. if i < length argv then vals ! i else JNull) [0..<k] @ drop k args),
              [])"
  using conv k len
proof (induction k arbitrary: args)
  case 0
  then show ?case by simp
next
  case (Suc k)
  have kt: "k < length types" "k < length args" using Suc.prems by simp_all
  let ?v = "if k < length argv then vals ! k else JNull"
  have step: "loadFixed_duktape types (length argv) (rev [0..<Suc k]) args (take (Suc k) argv)
      = loadFixed_duktape types (length argv) (rev [0..<k]) (args[k := ?v]) (take k argv)"
  proof (cases "k < length argv")
    case True
    then have "take (Suc k) argv = take k argv @ [argv ! k]"
      by (simp add: take_Suc_conv_app_nth)
    moreover have "toJava (types ! k) (argv ! k) = Inr (vals ! k)"
      using Suc.prems(1) True by simp
    ultimately show ?thesis
      using True by (simp add: vector_at_nth [OF kt(1)] pop_def)
  next
    case False
    then show ?thesis by (simp add: vector_at_nth [OF kt(1)])
  qed
  have IH: "loadFixed_duktape types (length argv) (rev [0..<k]) (args[k := ?v]) (take k argv)
      = (Inr (map (\<lambda>i. if i < length argv then vals ! i else JNull) [0..<k]
                @ drop k (args[k := ?v])), [])"
    by (rule Suc.IH) (use Suc.prems in simp_all)
  have "drop k (args[k := ?v]) = ?v # drop (Suc k) args"
    using kt(2) by (simp add: drop_update_swap [symmetric] Cons_nth_drop_Suc [symmetric])
  then show ?case unfolding step IH by simp
qed

lemma collect_fold:
  "fold (\<lambda>i varArgArray. JS_SetPropertyUint32 varArgArray i (f i)) [0..<c] (JS_ARRAY [])
     = JS_ARRAY (map f [0..<c])"
  by (induction c) simp_all

lemma collectVarArgs_drop:
  assumes "0 \<le> minArgs"
  shows "collectVarArgs argv minArgs (int (length argv) - minArgs)
           = JS_ARRAY (drop (nat minArgs) argv)"
proof -
  let ?c = "nat (int (length argv) - minArgs)"
  have c: "?c = length argv - nat minArgs" using assms by auto
  have "map (\<lambda>i. argv ! nat (minArgs + int i)) [0..<?c] = drop (nat minArgs) argv"
    unfolding c using assms
    by (intro nth_equalityI) (simp_all add: nat_add_distrib)
  then show ?thesis
    by (simp add: collectVarArgs_def JS_NewArray_def collect_fold)
qed


lemma loop_count_duktape:
  "n < 2 ^ 63 \<Longrightarrow> nat (to_ssize_t (size_t_minus n (Suc 0)) + 1) = n"
  by (cases "n = 0") (simp_all add: to_ssize_t_def size_t_minus_def SIZE_WIDTH_def)

lemma replicate_Suc_update: "(replicate (Suc n) x)[n := a] = replicate n x @ [a]"
  by (induction n) simp_all

subsection \<open>What both flavours load when every supplied value marshals\<close>

lemma vector_back_last: "xs \<noteq> [] \<Longrightarrow> vector_back xs = Inr (last xs)"
  by (cases xs) (simp_all add: vector_back_def)

lemma replicate_set_last:
  assumes "xs \<noteq> []"
  shows "drop (length xs - 1) ((replicate (length xs) x)[length xs - 1 := a]) = [a]"
proof -
  from assms obtain k where k: "length xs = Suc k" by (cases xs) auto
  show ?thesis unfolding k by (simp add: replicate_Suc_update del: replicate_Suc)
qed

lemma loadArguments_quickjs_ok:
  assumes wf: "m_isVarArgs m \<longrightarrow> m_argumentTypes m \<noteq> []"
    and count: "\<not> m_isVarArgs m \<longrightarrow> length argv \<le> length (m_argumentTypes m)"
    and conv: "\<forall>i<nat (minArgs_quickjs m). i < length argv
                 \<longrightarrow> toJava (m_argumentTypes m ! i) (argv ! i) = Inr (vals ! i)"
    and arr: "m_isVarArgs m \<longrightarrow>
                toJavaArray (last (m_argumentTypes m))
                  (JS_ARRAY (drop (nat (minArgs_quickjs m)) argv)) = Inr a"
  shows "JavaMethod_loadArguments_quickjs m argv
           = Inr (map (\<lambda>i. if i < length argv then vals ! i else JNull)
                      [0..<nat (minArgs_quickjs m)]
                  @ (if m_isVarArgs m then [a] else []))"
proof (cases "m_isVarArgs m")
  case False
  let ?n = "length (m_argumentTypes m)"
  have min: "minArgs_quickjs m = int ?n" using False by (simp add: minArgs_quickjs_def)
  have k: "nat (minArgs_quickjs m) = ?n" using min by simp
  have "loadFixed_quickjs (m_argumentTypes m) argv [0..<?n] (replicate ?n JNull)
      = Inr (take 0 (replicate ?n JNull)
               @ map (\<lambda>i. if i < length argv then vals ! i else JNull) [0..<?n]
               @ drop ?n (replicate ?n JNull))"
    by (rule loadFixed_quickjs_ok) (use conv k in simp_all)
  with False count show ?thesis
    by (simp add: JavaMethod_loadArguments_quickjs_def Let_def min)
next
  case True
  let ?n = "length (m_argumentTypes m)"
  let ?k = "nat (minArgs_quickjs m)"
  let ?f = "\<lambda>i. if i < length argv then vals ! i else JNull"
  let ?args = "replicate ?n JNull"
  have n0: "m_argumentTypes m \<noteq> []" using wf True by simp
  then have n: "Suc 0 \<le> ?n" by (cases "m_argumentTypes m") simp_all
  have kn: "?k = ?n - 1" "0 \<le> minArgs_quickjs m" using True n n0
    by (simp_all add: minArgs_quickjs_def)
  have A: "JavaMethod_loadArguments_quickjs m argv
      = (case loadFixed_quickjs (m_argumentTypes m) argv [0..<?k] ?args of
           Inl e \<Rightarrow> Inl e
         | Inr args' \<Rightarrow>
             (case toJavaArray (last (m_argumentTypes m))
                     (collectVarArgs argv (minArgs_quickjs m)
                        (int (length argv) - minArgs_quickjs m)) of
                Inl e \<Rightarrow> Inl e
              | Inr a \<Rightarrow> Inr (args'[length args' - 1 := a])))"
    using True vector_back_last [OF n0]
    by (simp add: JavaMethod_loadArguments_quickjs_def Let_def split: sum.splits)
  have fixed: "loadFixed_quickjs (m_argumentTypes m) argv [0..<?k] ?args
      = Inr (take 0 ?args @ map ?f [0..<?k] @ drop ?k ?args)"
    by (rule loadFixed_quickjs_ok) (use conv kn in simp_all)
  have "?n - ?k = 1" using n kn by arith
  then have one: "drop ?k ?args = [JNull]" by simp
  have coll: "collectVarArgs argv (minArgs_quickjs m) (int (length argv) - minArgs_quickjs m)
      = JS_ARRAY (drop ?k argv)"
    by (rule collectVarArgs_drop [OF kn(2)])
  have arr': "toJavaArray (last (m_argumentTypes m)) (JS_ARRAY (drop ?k argv)) = Inr a"
    using arr True by simp
  have upd: "(map ?f [0..<?k] @ [JNull])[length (map ?f [0..<?k] @ [JNull]) - 1 := a]
      = map ?f [0..<?k] @ [a]"
    by (simp add: list_update_append)
  show ?thesis
    unfolding A fixed one coll arr' using True upd by simp
qed

lemma loadArguments_duktape_ok:
  assumes wf: "m_isVarArgs m \<longrightarrow> m_argumentTypes m \<noteq> []"
    and bound: "length (m_argumentTypes m) < 2 ^ 63"
    and count: "if m_isVarArgs m then minArgs_duktape m \<le> length argv
                else length argv \<le> length (m_argumentTypes m)"
    and conv: "\<forall>i<minArgs_duktape m. i < length argv
                 \<longrightarrow> toJava (m_argumentTypes m ! i) (argv ! i) = Inr (vals ! i)"
    and arr: "m_isVarArgs m \<longrightarrow>
                toJavaArray (last (m_argumentTypes m))
                  (JS_ARRAY (drop (minArgs_duktape m) argv)) = Inr a"
  shows "JavaMethod_loadArguments_duktape m argv
           = (Inr (map (\<lambda>i. if i < length argv then vals ! i else JNull)
                       [0..<minArgs_duktape m]
                   @ (if m_isVarArgs m then [a] else [])), [])"
proof (cases "m_isVarArgs m")
  case False
  let ?n = "length (m_argumentTypes m)"
  have k: "minArgs_duktape m = ?n" using False by (simp add: minArgs_duktape_def)
  have le: "length argv \<le> ?n" using count False by simp
  have "loadFixed_duktape (m_argumentTypes m) (length argv) (rev [0..<?n]) (replicate ?n JNull)
          (take ?n argv)
      = (Inr (map (\<lambda>i. if i < length argv then vals ! i else JNull) [0..<?n]
                @ drop ?n (replicate ?n JNull)), [])"
    by (rule loadFixed_duktape_ok) (use conv k in simp_all)
  with False le k show ?thesis
    by (simp add: JavaMethod_loadArguments_duktape_def Let_def loop_count_duktape [OF bound])
next
  case True
  let ?n = "length (m_argumentTypes m)"
  let ?k = "minArgs_duktape m"
  let ?f = "\<lambda>i. if i < length argv then vals ! i else JNull"
  let ?args = "(replicate ?n JNull)[?n - 1 := a]"
  have n0: "m_argumentTypes m \<noteq> []" using wf True by simp
  then have n: "Suc 0 \<le> ?n" by (cases "m_argumentTypes m") simp_all
  have kn: "?k = ?n - 1" using True n by (simp add: minArgs_duktape_def size_t_minus_def)
  have ge: "?k \<le> length argv" using count True by simp
  have A: "JavaMethod_loadArguments_duktape m argv
      = (case popArray (last (m_argumentTypes m)) (size_t_minus (length argv) ?k) argv of
           (Inl e, st') \<Rightarrow> (Inl e, st')
         | (Inr a, st') \<Rightarrow>
             loadFixed_duktape (m_argumentTypes m) (length argv)
               (rev [0..<nat (to_ssize_t (size_t_minus ?k (Suc 0)) + 1)])
               ((replicate ?n JNull)[?n - 1 := a]) st')"
    using True vector_back_last [OF n0]
    by (simp add: JavaMethod_loadArguments_duktape_def Let_def split: prod.splits sum.splits)
  have sub: "size_t_minus (length argv) ?k = length argv - ?k"
    using ge by (simp add: size_t_minus_def)
  have arr': "toJavaArray (last (m_argumentTypes m)) (JS_ARRAY (drop ?k argv)) = Inr a"
    using arr True by simp
  have pa: "popArray (last (m_argumentTypes m)) (length argv - ?k) argv = (Inr a, take ?k argv)"
    using ge arr' by (simp add: popArray_def)
  have cnt: "nat (to_ssize_t (size_t_minus ?k (Suc 0)) + 1) = ?k"
    by (rule loop_count_duktape) (use bound kn in simp)
  have fixed: "loadFixed_duktape (m_argumentTypes m) (length argv) (rev [0..<?k]) ?args
          (take ?k argv)
      = (Inr (map ?f [0..<?k] @ drop ?k ?args), [])"
    by (rule loadFixed_duktape_ok) (use conv kn in simp_all)
  have last: "drop ?k ?args = [a]"
    unfolding kn by (rule replicate_set_last [OF n0])
  show ?thesis
    unfolding A sub pa cnt using True fixed last by simp
qed

lemma minArgs_agree:
  "m_isVarArgs m \<longrightarrow> m_argumentTypes m \<noteq> [] \<Longrightarrow> minArgs_quickjs m = int (minArgs_duktape m)"
  by (cases "m_argumentTypes m")
    (simp_all add: minArgs_quickjs_def minArgs_duktape_def size_t_minus_def)

text \<open>
  With a well-formed method, and for a variadic one at least \<open>minArgs\<close> script
  arguments, the two flavours load the same argument vector whenever every supplied
  value marshals, and raise the same error when there are too many arguments.
\<close>

lemma loadArguments_flavours_agree:
  assumes wf: "m_isVarArgs m \<longrightarrow> m_argumentTypes m \<noteq> []"
    and bound: "length (m_argumentTypes m) < 2 ^ 63"
    and enough: "m_isVarArgs m \<longrightarrow> minArgs_duktape m \<le> length argv"
    and conv: "\<forall>i<minArgs_duktape m. i < length argv
                 \<longrightarrow> toJava (m_argumentTypes m ! i) (argv ! i) = Inr (vals ! i)"
    and arr: "m_isVarArgs m \<longrightarrow>
                toJavaArray (last (m_argumentTypes m))
                  (JS_ARRAY (drop (minArgs_duktape m) argv)) = Inr a"
  shows "fst (JavaMethod_loadArguments_duktape m argv) = JavaMethod_loadArguments_quickjs m argv"
proof (cases "\<not> m_isVarArgs m \<and> length argv > length (m_argumentTypes m)")
  case True
  then show ?thesis
    by (simp add: JavaMethod_loadArguments_duktape_def JavaMethod_loadArguments_quickjs_def
        minArgs_duktape_def minArgs_quickjs_def Let_def)
next
  case False
  have min: "nat (minArgs_quickjs m) = minArgs_duktape m"
    using minArgs_agree [OF wf] by simp
  have q: "JavaMethod_loadArguments_quickjs m argv
           = Inr (map (\<lambda>i. if i < length argv then vals ! i else JNull)
                      [0..<nat (minArgs_quickjs m)]
                  @ (if m_isVarArgs m then [a] else []))"
    by (rule loadArguments_quickjs_ok [OF wf]) (use False conv arr min in auto)
  have d: "JavaMethod_loadArguments_duktape m argv
           = (Inr (map (\<lambda>i. if i < length argv then vals ! i else JNull)
                       [0..<minArgs_duktape m]
                   @ (if m_isVarArgs m then [a] else [])), [])"
    by (rule loadArguments_duktape_ok [OF wf bound _ conv arr]) (use False enough in auto)
  show ?thesis unfolding q d min by simp
qed

subsection \<open>Missing arguments where the subtraction does not wrap\<close>

lemma loaded_prefix_nulls:
  assumes "length vals = n" "n \<le> k"
  shows "map (\<lambda>i. if i < n then vals ! i else JNull) [0..<k] = vals @ replicate (k - n) JNull"
  using assms by (intro nth_equalityI) (auto simp: nth_append)

text \<open>
  In the QuickJS flavour, and for a method that is not variadic in the Duktape flavour,
  a call with fewer script arguments than \<open>minArgs\<close> reaches the method body whenever
  the supplied arguments marshal: the body receives their host values, null for each
  missing fixed parameter and, for a variadic method, the array read from no values.
\<close>

lemma missing_arguments_null_quickjs:
  assumes wf: "m_isVarArgs m \<longrightarrow> m_argumentTypes m \<noteq> []"
    and fewer: "int (length argv) < minArgs_quickjs m"
    and vals: "length vals = length argv"
    and conv: "\<forall>i<length argv. toJava (m_argumentTypes m ! i) (argv ! i) = Inr (vals ! i)"
    and arr: "m_isVarArgs m \<longrightarrow> toJavaArray (last (m_argumentTypes m)) (JS_ARRAY []) = Inr a"
  shows "JavaMethod_invoke_quickjs m argv
           = m_methodBody m (vals @ replicate (nat (minArgs_quickjs m) - length argv) JNull
                               @ (if m_isVarArgs m then [a] else []))"
proof -
  have le: "length argv \<le> nat (minArgs_quickjs m)" using fewer by simp
  have "JavaMethod_loadArguments_quickjs m argv
           = Inr (map (\<lambda>i. if i < length argv then vals ! i else JNull)
                      [0..<nat (minArgs_quickjs m)]
                  @ (if m_isVarArgs m then [a] else []))"
    by (rule loadArguments_quickjs_ok [OF wf])
      (use fewer conv arr le in \<open>auto simp: minArgs_quickjs_def\<close>)
  then show ?thesis
    by (simp add: JavaMethod_invoke_quickjs_def loaded_prefix_nulls [OF vals le])
qed

lemma missing_arguments_null_duktape:
  assumes fixed: "\<not> m_isVarArgs m"
    and bound: "length (m_argumentTypes m) < 2 ^ 63"
    and fewer: "length argv < length (m_argumentTypes m)"
    and vals: "length vals = length argv"
    and conv: "\<forall>i<length argv. toJava (m_argumentTypes m ! i) (argv ! i) = Inr (vals ! i)"
  shows "JavaMethod_invoke_duktape m argv
           = m_methodBody m
               (vals @ replicate (length (m_argumentTypes m) - length argv) JNull) []"
proof -
  have k: "minArgs_duktape m = length (m_argumentTypes m)"
    using fixed by (simp add: minArgs_duktape_def)
  have le: "length argv \<le> length (m_argumentTypes m)" using fewer by simp
  have "JavaMethod_loadArguments_duktape m argv
           = (Inr (map (\<lambda>i. if i < length argv then vals ! i else JNull)
                       [0..<minArgs_duktape m]
                   @ (if m_isVarArgs m then [a] else [])), [])"
    by (rule loadArguments_duktape_ok [OF _ bound]) (use fixed fewer conv in auto)
  then show ?thesis
    using fixed by (simp add: JavaMethod_invoke_duktape_def k loaded_prefix_nulls [OF vals le])
qed

section \<open>Construction of \<open>JavaScriptMethod\<close>\<close>

lemma JavaScriptMethod_argumentTypes_nth:
  "JavaScriptMethod_argumentTypes forName provider varArgs ps = Inr ts \<Longrightarrow>
     length ts = length ps \<and>
     (\<forall>i < length ps.
        (if varArgs \<and> i = length ps - 1
         then makeUniqueType provider (getGenericParameter forName (ps ! i)) False
         else makeUniqueType provider (Some (ps ! i)) True) = Inr (ts ! i))"
proof (induction ps arbitrary: ts)
  case Nil
  then show ?case by simp
next
  case (Cons p rest)
  show ?case
  proof (cases "varArgs \<and> rest = []")
    case True
    with Cons.prems show ?thesis
      by (auto split: sum.splits)
  next
    case False
    with Cons.prems obtain t ts' where
      t: "makeUniqueType provider (Some p) True = Inr t"
      and ts': "JavaScriptMethod_argumentTypes forName provider varArgs rest = Inr ts'"
      and ts: "ts = t # ts'"
      by (auto split: sum.splits)
    from Cons.IH [OF ts'] have len: "length ts' = length rest"
      and nth: "\<And>i. i < length rest \<Longrightarrow>
        (if varArgs \<and> i = length rest - 1
         then makeUniqueType provider (getGenericParameter forName (rest ! i)) False
         else makeUniqueType provider (Some (rest ! i)) True) = Inr (ts' ! i)"
      by simp_all
    show ?thesis
    proof (intro conjI allI impI)
      show "length ts = length (p # rest)" using len ts by simp
    next
      fix i assume i: "i < length (p # rest)"
      show "(if varArgs \<and> i = length (p # rest) - 1
         then makeUniqueType provider (getGenericParameter forName ((p # rest) ! i)) False
         else makeUniqueType provider (Some ((p # rest) ! i)) True) = Inr (ts ! i)"
      proof (cases i)
        case 0
        with False t ts show ?thesis by auto
      next
        case (Suc k)
        with i have k: "k < length rest" by simp
        have idx: "(p # rest) ! i = rest ! k" "ts ! i = ts' ! k"
          "(i = length (p # rest) - 1) = (k = length rest - 1)"
          using Suc k ts by auto
        from nth [OF k] show ?thesis unfolding idx .
      qed
    qed
  qed
qed

text \<open>
  C6, amended. When the constructor of \<open>JavaScriptMethod\<close> succeeds, the return
  marshaller and the marshaller of every parameter other than a trailing variadic one are
  requested from the provider in boxed form. The marshaller of the trailing parameter of a
  variadic method is requested for the element descriptor of that parameter
  (\<open>getGenericParameter\<close>) with \<open>boxed = false\<close>.
\<close>

theorem argument_marshallers_boxing:
  "JavaScriptMethod_new forName provider method methodName isLambda = Inr jm \<Longrightarrow>
     makeUniqueType provider (getReturnParameter method) True = Inr (m_returnValueType jm)
     \<and> length (m_argumentTypes jm) = length (getParameters method)
     \<and> (\<forall>i < length (getParameters method).
          (isVarArgs method \<and> i = length (getParameters method) - 1
             \<longrightarrow> makeUniqueType provider
                   (getGenericParameter forName (getParameters method ! i)) False
                 = Inr (m_argumentTypes jm ! i))
          \<and> (\<not> (isVarArgs method \<and> i = length (getParameters method) - 1)
             \<longrightarrow> makeUniqueType provider (Some (getParameters method ! i)) True
                 = Inr (m_argumentTypes jm ! i)))"
proof -
  assume new: "JavaScriptMethod_new forName provider method methodName isLambda = Inr jm"
  then obtain rt ts where
    rt: "makeUniqueType provider (getReturnParameter method) True = Inr rt"
    and ts: "JavaScriptMethod_argumentTypes forName provider (isVarArgs method)
               (getParameters method) = Inr ts"
    and jm: "m_returnValueType jm = rt" "m_argumentTypes jm = ts"
    by (auto simp: JavaScriptMethod_new_def split: sum.splits)
  from JavaScriptMethod_argumentTypes_nth [OF ts] rt jm show ?thesis
    by (auto split: if_splits)
qed

text \<open>
  C6, as stated, fails: for the variadic \<open>join(String, vararg String)\<close> the provider
  is asked for the marshaller of the trailing parameter with \<open>boxed = false\<close>.
\<close>

theorem vararg_marshaller_not_boxed:
  "JavaScriptMethod_new sample_forName recording_provider join_reflected ''join'' False
     = Inr \<lparr> m_methodName = ''join'', m_isLambda = False, m_isVarArgs = True,
             m_argumentTypes = [(Some (Parameter_KType sample_forName K_String), True),
                                (Some (Parameter_KType sample_forName K_String), False)],
             m_returnValueType = (Some (Parameter_KType sample_forName K_String), True),
             m_returnValueParameter = Some (Parameter_KType sample_forName K_String) \<rparr>"
  by (simp add: JavaScriptMethod_new_def join_reflected_def recording_provider_def
      getGenericParameter_def Parameter_KType_def K_Array_String_def firstArgumentType_def
      firstOrNull_def)

theorem argument_marshallers_boxing_witness:
  "makeUniqueType recording_provider (Some (Parameter_KType sample_forName K_String)) True
     = Inr (Some (Parameter_KType sample_forName K_String), True)
   \<and> makeUniqueType recording_provider
       (getGenericParameter sample_forName (Parameter_KType sample_forName K_Array_String)) False
     = Inr (Some (Parameter_KType sample_forName K_String), False)"
proof -
  let ?jm = "\<lparr> m_methodName = ''join'', m_isLambda = False, m_isVarArgs = True,
             m_argumentTypes = [(Some (Parameter_KType sample_forName K_String), True),
                                (Some (Parameter_KType sample_forName K_String), False)],
             m_returnValueType = (Some (Parameter_KType sample_forName K_String), True),
             m_returnValueParameter = Some (Parameter_KType sample_forName K_String) \<rparr>"
  have new: "JavaScriptMethod_new sample_forName recording_provider join_reflected ''join'' False
     = Inr ?jm"
    by (simp add: JavaScriptMethod_new_def join_reflected_def recording_provider_def
      getGenericParameter_def Parameter_KType_def K_Array_String_def firstArgumentType_def
      firstOrNull_def)
  have all: "\<forall>i < length (getParameters join_reflected).
          (isVarArgs join_reflected \<and> i = length (getParameters join_reflected) - 1
             \<longrightarrow> makeUniqueType recording_provider
                   (getGenericParameter sample_forName (getParameters join_reflected ! i)) False
                 = Inr (m_argumentTypes ?jm ! i))
          \<and> (\<not> (isVarArgs join_reflected \<and> i = length (getParameters join_reflected) - 1)
             \<longrightarrow> makeUniqueType recording_provider (Some (getParameters join_reflected ! i)) True
                 = Inr (m_argumentTypes ?jm ! i))"
    using argument_marshallers_boxing [OF new] by blast
  have "(0::nat) < length (getParameters join_reflected)" "(1::nat) < length (getParameters join_reflected)"
    by (simp_all add: join_reflected_def)
  with all have
    "(\<not> (isVarArgs join_reflected \<and> (0::nat) = length (getParameters join_reflected) - 1)
             \<longrightarrow> makeUniqueType recording_provider (Some (getParameters join_reflected ! 0)) True
                 = Inr (m_argumentTypes ?jm ! 0))"
    "(isVarArgs join_reflected \<and> (1::nat) = length (getParameters join_reflected) - 1
             \<longrightarrow> makeUniqueType recording_provider
                   (getGenericParameter sample_forName (getParameters join_reflected ! 1)) False
                 = Inr (m_argumentTypes ?jm ! 1))"
    by blast+
  then show ?thesis
    by (simp add: join_reflected_def)
qed

section \<open>Eager check at the registration of a script object\<close>

lemma contains_append: "contains (a @ n @ b) n"
proof (induction a)
  case Nil
  show ?case
  proof (cases "n @ b")
    case Nil
    then show ?thesis by simp
  next
    case (Cons x xs)
    have "take (length n) (n @ b) = n" by simp
    then have "take (length n) (x # xs) = n" unfolding Cons .
    then have "contains (x # xs) n" by simp
    then show ?thesis using Cons by simp
  qed
next
  case (Cons x a)
  then show ?case by simp
qed

lemma contains_suffix: "contains (a @ n) n"
  using contains_append [of a n "[]"] by simp

lemma JS_IsFunction_defined: "JS_IsFunction v \<Longrightarrow> \<not> JS_IsUndefined v"
  by (cases v) simp_all

lemma JS_IsObject_not_null: "JS_IsObject v \<Longrightarrow> \<not> JS_IsNull v"
  by (cases v) simp_all

lemma JS_IsFunction_has: "JS_IsFunction (JS_GetPropertyStr obj n) \<Longrightarrow> hasPropertyStr obj n"
  by (cases obj) (auto split: option.splits)

lemma checkMethod_quickjs_ok:
  "JS_IsFunction (JS_GetPropertyStr obj n) \<Longrightarrow> checkMethod_quickjs objName obj n = Inr ()"
  by (simp add: checkMethod_quickjs_def Let_def JS_IsFunction_defined)

lemma checkMethod_quickjs_offender:
  assumes "\<not> JS_IsFunction (JS_GetPropertyStr obj n)"
  shows "\<exists>d. checkMethod_quickjs objName obj n = Inl (invalid_argument d) \<and> contains d n"
proof (cases "JS_IsUndefined (JS_GetPropertyStr obj n)")
  case True
  have "contains ((''JS global '' @ objName @ '' has no method called '') @ n) n"
    by (rule contains_suffix)
  with True show ?thesis by (simp add: checkMethod_quickjs_def Let_def)
next
  case False
  have "contains ((''JS property '' @ objName @ ''.'') @ n @ '' is not function'') n"
    by (rule contains_append)
  with False assms show ?thesis by (simp add: checkMethod_quickjs_def Let_def)
qed

lemma duk_get_top: "duk_get (st @ [v]) (- 1) = Some v"
  by (simp add: duk_get_def)

lemma checkMethod_duktape_ok:
  "JS_IsFunction (JS_GetPropertyStr obj n) \<Longrightarrow>
     checkMethod_duktape objName n (st @ [obj]) = (Inr (), st @ [obj])"
  using duk_get_top [of "st @ [obj]" "JS_GetPropertyStr obj n"]
  by (simp add: checkMethod_duktape_def duk_get_prop_string_def duk_get_top JS_IsFunction_has
      duk_is_callable_def duk_pop_n_def)

lemma checkMethod_duktape_offender:
  assumes "\<not> JS_IsFunction (JS_GetPropertyStr obj n)"
  shows "\<exists>d. checkMethod_duktape objName n (st @ [obj]) = (Inl (invalid_argument d), st)
           \<and> contains d n"
proof (cases "hasPropertyStr obj n")
  case False
  have "contains ((''JS global '' @ objName @ '' has no method called '') @ n) n"
    by (rule contains_suffix)
  with False show ?thesis
    by (simp add: checkMethod_duktape_def duk_get_prop_string_def duk_get_top
        pop_and_rethrow_def duk_pop_n_def)
next
  case True
  have "contains ((''JS property '' @ objName @ ''.'') @ n @ '' not callable'') n"
    by (rule contains_append)
  with True assms duk_get_top [of "st @ [obj]" "JS_GetPropertyStr obj n"] show ?thesis
    by (simp add: checkMethod_duktape_def duk_get_prop_string_def duk_get_top
        duk_is_callable_def pop_and_rethrow_def duk_pop_n_def)
qed

lemma registerMethods_quickjs_prefix:
  assumes "\<forall>m \<in> set pre. JS_IsFunction (JS_GetPropertyStr obj (getName m))
             \<and> (\<exists>jm. JavaScriptMethod_new forName provider m (getName m) False = Inr jm)"
    and "checkMethod_quickjs objName obj (getName meth) = Inl e"
  shows "registerMethods_quickjs forName provider objName obj True (pre @ meth # post) acc = Inl e"
  using assms
proof (induction pre arbitrary: acc)
  case Nil
  then show ?case by simp
next
  case (Cons m pre)
  then obtain jm where "JavaScriptMethod_new forName provider m (getName m) False = Inr jm"
    and "JS_IsFunction (JS_GetPropertyStr obj (getName m))"
    by auto
  with Cons show ?case
    by (simp add: checkMethod_quickjs_ok)
qed

lemma registerMethods_duktape_prefix:
  assumes "\<forall>m \<in> set pre. JS_IsFunction (JS_GetPropertyStr obj (getName m))
             \<and> (\<exists>jm. JavaScriptMethod_new forName provider m (getName m) False = Inr jm)"
    and "checkMethod_duktape objName (getName meth) (st @ [obj]) = (Inl e, st')"
  shows "registerMethods_duktape forName provider objName True (pre @ meth # post) acc (st @ [obj])
           = (Inl e, st')"
  using assms
proof (induction pre arbitrary: acc)
  case Nil
  then show ?case by simp
next
  case (Cons m pre)
  then obtain jm where "JavaScriptMethod_new forName provider m (getName m) False = Inr jm"
    and "JS_IsFunction (JS_GetPropertyStr obj (getName m))"
    by auto
  with Cons show ?case
    by (simp add: checkMethod_duktape_ok)
qed

lemma registerMethods_quickjs_fails:
  "\<exists>m \<in> set ms. \<not> JS_IsFunction (JS_GetPropertyStr obj (getName m)) \<Longrightarrow>
     \<exists>e. registerMethods_quickjs forName provider objName obj True ms acc = Inl e"
proof (induction ms arbitrary: acc)
  case Nil
  then show ?case by simp
next
  case (Cons m ms)
  show ?case
  proof (cases "JS_IsFunction (JS_GetPropertyStr obj (getName m))")
    case False
    from checkMethod_quickjs_offender [OF False, of objName] show ?thesis by auto
  next
    case True
    with Cons.prems have rest: "\<exists>m \<in> set ms. \<not> JS_IsFunction (JS_GetPropertyStr obj (getName m))"
      by auto
    show ?thesis
    proof (cases "JavaScriptMethod_new forName provider m (getName m) False")
      case (Inl e)
      with True show ?thesis by (simp add: checkMethod_quickjs_ok)
    next
      case (Inr jm)
      with True Cons.IH [OF rest] show ?thesis by (simp add: checkMethod_quickjs_ok)
    qed
  qed
qed

lemma pop_and_rethrow_top: "pop_and_rethrow (Suc 0) e (st @ [v]) = (Inl e, st)"
  by (simp add: pop_and_rethrow_def duk_pop_n_def)

lemma registerMethods_duktape_fails:
  "\<exists>m \<in> set ms. \<not> JS_IsFunction (JS_GetPropertyStr obj (getName m)) \<Longrightarrow>
     \<exists>e st'. registerMethods_duktape forName provider objName True ms acc (st @ [obj]) = (Inl e, st')"
proof (induction ms arbitrary: acc)
  case Nil
  then show ?case by simp
next
  case (Cons m ms)
  show ?case
  proof (cases "JS_IsFunction (JS_GetPropertyStr obj (getName m))")
    case False
    from checkMethod_duktape_offender [OF False, of objName st] show ?thesis by auto
  next
    case True
    with Cons.prems have rest: "\<exists>m \<in> set ms. \<not> JS_IsFunction (JS_GetPropertyStr obj (getName m))"
      by auto
    show ?thesis
    proof (cases "JavaScriptMethod_new forName provider m (getName m) False")
      case (Inl e)
      with True show ?thesis
        by (cases e) (simp_all add: checkMethod_duktape_ok pop_and_rethrow_top)
    next
      case (Inr jm)
      with True Cons.IH [OF rest] show ?thesis by (simp add: checkMethod_duktape_ok)
    qed
  qed
qed

text \<open>
  C5, as stated, fails: there is no combined diagnostic. With \<open>compute\<close> and
  \<open>render\<close> both missing, registration throws at the first one and the message does
  not name the second.
\<close>

theorem registration_diagnostic_names_first_only:
  "JavaScriptObject_new_quickjs sample_forName recording_provider ''api'' empty_api
       [compute_reflected, render_reflected] True
     = Inl (invalid_argument ''JS global api has no method called compute'')
   \<and> JavaScriptObject_new_duktape sample_forName recording_provider ''api'' 0
       [compute_reflected, render_reflected] True [empty_api]
     = (Inl (invalid_argument ''JS global api has no method called compute''), [empty_api])
   \<and> \<not> JS_IsFunction (JS_GetPropertyStr empty_api ''render'')
   \<and> \<not> contains ''JS global api has no method called compute'' ''render''"
  by (simp add: JavaScriptObject_new_quickjs_def JavaScriptObject_new_duktape_def
      checkMethod_quickjs_def checkMethod_duktape_def empty_api_def compute_reflected_def
      render_reflected_def duk_is_object_def duk_is_null_def duk_get_def
      duk_get_prop_string_def pop_and_rethrow_def duk_pop_n_def)

text \<open>
  C5, amended. Registration with \<open>check = true\<close> of a valid script object fails at
  registration time (the constructor throws) whenever some required method is missing
  from the object or is not callable. The diagnostic is that of the first offending
  entry in the order of the method list: when the wrappers of all earlier methods could
  be built, the constructor throws \<open>std::invalid_argument\<close> with a message that
  contains that method's name (and the Duktape stack is restored). Later offending
  entries are not reported.
\<close>

theorem registration_check_fails_fast:
  assumes obj: "JS_IsObject obj" and idx: "duk_get st jsObjectIndex = Some obj"
  shows "((\<exists>m \<in> set methods. \<not> JS_IsFunction (JS_GetPropertyStr obj (getName m)))
          \<longrightarrow> (\<exists>e. JavaScriptObject_new_quickjs forName provider strName obj methods True = Inl e)
              \<and> (\<exists>e st'. JavaScriptObject_new_duktape forName provider strName jsObjectIndex
                            methods True st = (Inl e, st')))
       \<and> (methods = pre @ meth # post
            \<and> (\<forall>m \<in> set pre. JS_IsFunction (JS_GetPropertyStr obj (getName m))
                  \<and> (\<exists>jm. JavaScriptMethod_new forName provider m (getName m) False = Inr jm))
            \<and> \<not> JS_IsFunction (JS_GetPropertyStr obj (getName meth))
          \<longrightarrow> (\<exists>d. JavaScriptObject_new_quickjs forName provider strName obj methods True
                     = Inl (invalid_argument d) \<and> contains d (getName meth))
              \<and> (\<exists>d. JavaScriptObject_new_duktape forName provider strName jsObjectIndex
                       methods True st = (Inl (invalid_argument d), st)
                     \<and> contains d (getName meth)))"
proof (intro conjI impI)
  have valid: "\<not> (\<not> JS_IsObject obj \<or> JS_IsNull obj)"
    "\<not> (\<not> duk_is_object st jsObjectIndex \<or> duk_is_null st jsObjectIndex)"
    using obj idx JS_IsObject_not_null [OF obj] by (simp_all add: duk_is_object_def duk_is_null_def)
  {
    assume "\<exists>m \<in> set methods. \<not> JS_IsFunction (JS_GetPropertyStr obj (getName m))"
    note off = this
    from registerMethods_quickjs_fails [OF off, of forName provider strName "[]"]
    obtain e where "registerMethods_quickjs forName provider strName obj True methods [] = Inl e"
      by blast
    then show "\<exists>e. JavaScriptObject_new_quickjs forName provider strName obj methods True = Inl e"
      using valid by (simp add: JavaScriptObject_new_quickjs_def)
    from registerMethods_duktape_fails [OF off, of forName provider strName "[]" st]
    obtain e st' where "registerMethods_duktape forName provider strName True methods []
                     (st @ [obj]) = (Inl e, st')" by blast
    then show "\<exists>e st'. JavaScriptObject_new_duktape forName provider strName jsObjectIndex
                            methods True st = (Inl e, st')"
      using valid idx by (simp add: JavaScriptObject_new_duktape_def)
  }
  {
    assume h: "methods = pre @ meth # post
            \<and> (\<forall>m \<in> set pre. JS_IsFunction (JS_GetPropertyStr obj (getName m))
                  \<and> (\<exists>jm. JavaScriptMethod_new forName provider m (getName m) False = Inr jm))
            \<and> \<not> JS_IsFunction (JS_GetPropertyStr obj (getName meth))"
    then have ms: "methods = pre @ meth # post"
      and pre: "\<forall>m \<in> set pre. JS_IsFunction (JS_GetPropertyStr obj (getName m))
                  \<and> (\<exists>jm. JavaScriptMethod_new forName provider m (getName m) False = Inr jm)"
      and off: "\<not> JS_IsFunction (JS_GetPropertyStr obj (getName meth))"
      by blast+
    from checkMethod_quickjs_offender [OF off, of strName] obtain d where
      d: "checkMethod_quickjs strName obj (getName meth) = Inl (invalid_argument d)"
      and c: "contains d (getName meth)" by blast
    from registerMethods_quickjs_prefix [OF pre d]
    show "\<exists>d. JavaScriptObject_new_quickjs forName provider strName obj methods True
                     = Inl (invalid_argument d) \<and> contains d (getName meth)"
      using valid c ms by (simp add: JavaScriptObject_new_quickjs_def)
    from checkMethod_duktape_offender [OF off, of strName st] obtain d' where
      d': "checkMethod_duktape strName (getName meth) (st @ [obj]) = (Inl (invalid_argument d'), st)"
      and c': "contains d' (getName meth)" by blast
    from registerMethods_duktape_prefix [OF pre d']
    show "\<exists>d. JavaScriptObject_new_duktape forName provider strName jsObjectIndex
                       methods True st = (Inl (invalid_argument d), st)
                     \<and> contains d (getName meth)"
      using valid idx c' ms by (simp add: JavaScriptObject_new_duktape_def)
  }
qed

theorem registration_check_fails_fast_witness:
  "(\<exists>d. JavaScriptObject_new_quickjs sample_forName recording_provider ''api'' half_api
            [compute_reflected, render_reflected] True = Inl (invalid_argument d)
        \<and> contains d ''render'')
   \<and> (\<exists>d. JavaScriptObject_new_duktape sample_forName recording_provider ''api'' (- 1)
            [compute_reflected, render_reflected] True [JS_NULL, half_api]
            = (Inl (invalid_argument d), [JS_NULL, half_api])
        \<and> contains d ''render'')"
proof -
  have obj: "JS_IsObject half_api"
    by (simp add: half_api_def)
  have idx: "duk_get [JS_NULL, half_api] (- 1) = Some half_api"
    by (simp add: duk_get_def)
  have hyp: "[compute_reflected, render_reflected] = [compute_reflected] @ render_reflected # []
      \<and> (\<forall>m \<in> set [compute_reflected].
            JS_IsFunction (JS_GetPropertyStr half_api (getName m))
            \<and> (\<exists>jm. JavaScriptMethod_new sample_forName recording_provider m (getName m) False
                      = Inr jm))
      \<and> \<not> JS_IsFunction (JS_GetPropertyStr half_api (getName render_reflected))"
    by (simp add: half_api_def compute_reflected_def render_reflected_def
        JavaScriptMethod_new_def recording_provider_def)
  have name: "getName render_reflected = ''render''"
    by (simp add: render_reflected_def)
  from registration_check_fails_fast
    [OF obj idx, of "[compute_reflected, render_reflected]" sample_forName recording_provider
       "''api''" "[compute_reflected]" render_reflected "[]"] hyp
  show ?thesis unfolding name by blast
qed


section \<open>Calling a script function: \<open>JavaScriptMethod::invoke\<close>\<close>



subsection \<open>QuickJS: the loop aborted at argument \<open>i\<close>\<close>



subsection \<open>Duktape: the loop aborted at argument \<open>i\<close>\<close>










subsection \<open>The shape of the Duktape stack before the call\<close>

lemma catch_std_exception_Inl: "fst (catch_std_exception n e st) \<noteq> Inr x"
  by (simp add: catch_std_exception_def pop_and_rethrow_def split: sum.splits)

lemma catch_std_exception_not_Inr: "catch_std_exception n e st \<noteq> (Inr x, s)"
  using catch_std_exception_Inl [of n e st x] by (metis fst_conv)

lemma pushArguments_duktape_shape:
  assumes "pushArguments_duktape m args numArguments [j..<N] st = (Inr n, st')" and "j \<le> N"
    and num: "numArguments = int N"
  shows "\<exists>vs. st' = st @ vs \<and> n = int j + int (length vs)"
  using assms(1,2)
proof (induction "N - j" arbitrary: j st)
  case 0
  then show ?case using num by simp
next
  case (Suc d)
  then have jN: "j < N" by simp
  have upt: "[j..<N] = j # [Suc j..<N]" using jN by (simp add: upt_conv_Cons)
  from Suc.prems(1) obtain arg T where
    arg: "getElement args (int j) = Inr arg" and T: "vector_at (m_argumentTypes m) (int j) = Inr T"
    unfolding upt by (auto split: sum.splits)
  show ?case
  proof (cases "m_isVarArgs m \<and> int j = numArguments - 1")
    case True
    with Suc.prems(1) arg T obtain a where a: "fromJavaArray T arg = Inr a"
      and res: "n = int j + int (length (array_elements a))" "st' = st @ array_elements a"
      unfolding upt
      by (auto simp: pushArray_def catch_std_exception_not_Inr split: sum.splits)
    then show ?thesis by simp
  next
    case False
    with Suc.prems(1) arg T obtain x where x: "fromJava T arg = Inr x"
      and rec: "pushArguments_duktape m args numArguments [Suc j..<N] (st @ [x]) = (Inr n, st')"
      unfolding upt
      by (auto simp: push_def catch_std_exception_not_Inr split: sum.splits)
    have "\<exists>vs. st' = (st @ [x]) @ vs \<and> n = int (Suc j) + int (length vs)"
    proof (rule Suc.hyps(1) [OF _ rec])
      show "d = N - Suc j" using Suc.hyps(2) by simp
      show "Suc j \<le> N" using jN by simp
    qed
    then obtain vs where "st' = st @ (x # vs)" "n = int j + int (length (x # vs))" by auto
    then show ?thesis by blast
  qed
qed

lemma getLength_nat: "int (nat (getLength args)) = getLength args"
  by (simp add: getLength_def split: option.splits)

lemma pushCall_duktape_shape:
  assumes "JavaScriptMethod_pushCall_duktape m h args st = (Inr n, st1)"
  shows "\<exists>vs. st1 = st @ (if m_isLambda m then [h] else [h, JS_STRING (m_methodName m)]) @ vs
           \<and> n = int (length vs)
           \<and> (if m_isLambda m then JS_IsFunction h else JS_IsObject h)"
proof (cases "m_isLambda m")
  case True
  with assms have f: "JS_IsFunction h"
    and p: "pushArguments_duktape m args (getLength args) [0..<nat (getLength args)]
              (st @ [h]) = (Inr n, st1)"
    by (auto simp: JavaScriptMethod_pushCall_duktape_def Let_def split: if_splits)
  from pushArguments_duktape_shape [OF p _ getLength_nat [symmetric]] True f show ?thesis
    by auto
next
  case False
  with assms have f: "JS_IsObject h"
    and p: "pushArguments_duktape m args (getLength args) [0..<nat (getLength args)]
              (st @ [h, JS_STRING (m_methodName m)]) = (Inr n, st1)"
    by (auto simp: JavaScriptMethod_pushCall_duktape_def Let_def split: if_splits)
  from pushArguments_duktape_shape [OF p _ getLength_nat [symmetric]] False f show ?thesis
    by auto
qed

lemma call_duktape_lambda:
  "m_isLambda m \<Longrightarrow>
     JavaScriptMethod_call_duktape JS_Call m (length st) (int (length vs)) (st @ [h] @ vs)
       = duk_outcome (JS_Call h JS_UNDEFINED vs) st"
  by (simp add: JavaScriptMethod_call_duktape_def duk_pcall_def nth_append)

lemma call_duktape_method:
  "\<not> m_isLambda m \<Longrightarrow>
     JavaScriptMethod_call_duktape JS_Call m (length st) (int (length vs))
         (st @ [h, JS_STRING k] @ vs)
       = (case JS_Call (JS_GetPropertyStr h k) h vs of
            Inl err \<Rightarrow> (False, st @ [err]) | Inr v \<Rightarrow> (True, st @ [v]))"
  by (simp add: JavaScriptMethod_call_duktape_def duk_pcall_prop_def duk_outcome_def
      duk_remove_def nth_append split: sum.splits)

lemma popResult_duktape_success:
  "JavaScriptMethod_popResult_duktape provider m awaitJsPromise True (st @ [ret])
     = (toJava (if awaitJsPromise \<and> JS_IsObject ret \<and> hasPropertyStr ret ''then''
                   \<and> \<not> isDeferred (m_returnValueType m)
                then getDeferredType provider (m_returnValueParameter m)
                else m_returnValueType m) ret, st)"
  by (simp add: JavaScriptMethod_popResult_duktape_def duk_is_object_def
      duk_has_prop_string_def duk_get_def pop_def)

text \<open>
  C3. Whenever the arguments have been marshalled and the script function returns a value
  \<open>ret\<close>, the result of \<open>invoke\<close> is \<open>ret\<close> read by one marshaller: the bridging
  marshaller \<open>getDeferredType(m_returnValueParameter)\<close> when \<open>awaitJsPromise\<close> is set,
  \<open>ret\<close> is an object with a property \<open>then\<close> and the declared return marshaller is
  not itself the Deferred one; the declared return marshaller \<open>m_returnValueType\<close> in
  every other case. In the Duktape flavour the value stack is then as before the call.
\<close>

theorem return_value_marshalling:
  "(JavaScriptMethod_marshalArguments_quickjs m javaArgs = (Inr jsArgs, tr)
      \<and> JS_Call jsMethod jsThis jsArgs = Inr ret
     \<longrightarrow> fst (JavaScriptMethod_invoke_quickjs JS_Call provider m jsMethod jsThis javaArgs
                awaitJsPromise)
         = toJava (if awaitJsPromise \<and> JS_IsObject ret \<and> hasPropertyStr ret ''then''
                      \<and> \<not> isDeferred (m_returnValueType m)
                   then getDeferredType provider (m_returnValueParameter m)
                   else m_returnValueType m) ret)
   \<and> (JavaScriptMethod_pushCall_duktape m jsHeapPtr javaArgs st = (Inr n, sta)
      \<and> JS_Call (if m_isLambda m then jsHeapPtr
                  else JS_GetPropertyStr jsHeapPtr (m_methodName m))
                 (if m_isLambda m then JS_UNDEFINED else jsHeapPtr)
                 (drop (length sta - nat n) sta) = Inr ret'
     \<longrightarrow> JavaScriptMethod_invoke_duktape JS_Call provider m jsHeapPtr javaArgs awaitJsPromise st
         = (toJava (if awaitJsPromise \<and> JS_IsObject ret' \<and> hasPropertyStr ret' ''then''
                       \<and> \<not> isDeferred (m_returnValueType m)
                    then getDeferredType provider (m_returnValueParameter m)
                    else m_returnValueType m) ret', st))"
proof (intro conjI impI)
  assume "JavaScriptMethod_marshalArguments_quickjs m javaArgs = (Inr jsArgs, tr)
      \<and> JS_Call jsMethod jsThis jsArgs = Inr ret"
  then show "fst (JavaScriptMethod_invoke_quickjs JS_Call provider m jsMethod jsThis javaArgs
                awaitJsPromise)
         = toJava (if awaitJsPromise \<and> JS_IsObject ret \<and> hasPropertyStr ret ''then''
                      \<and> \<not> isDeferred (m_returnValueType m)
                   then getDeferredType provider (m_returnValueParameter m)
                   else m_returnValueType m) ret"
    by (simp add: JavaScriptMethod_invoke_quickjs_def Let_def)
next
  assume h: "JavaScriptMethod_pushCall_duktape m jsHeapPtr javaArgs st = (Inr n, sta)
      \<and> JS_Call (if m_isLambda m then jsHeapPtr
                  else JS_GetPropertyStr jsHeapPtr (m_methodName m))
                 (if m_isLambda m then JS_UNDEFINED else jsHeapPtr)
                 (drop (length sta - nat n) sta) = Inr ret'"
  then have push: "JavaScriptMethod_pushCall_duktape m jsHeapPtr javaArgs st = (Inr n, sta)"
    by simp
  from pushCall_duktape_shape [OF push] obtain vs where
    sta: "sta = st @ (if m_isLambda m then [jsHeapPtr]
                      else [jsHeapPtr, JS_STRING (m_methodName m)]) @ vs"
    and n: "n = int (length vs)" by blast
  have dr: "drop (length sta - nat n) sta = vs" unfolding sta n by simp
  show "JavaScriptMethod_invoke_duktape JS_Call provider m jsHeapPtr javaArgs awaitJsPromise st
         = (toJava (if awaitJsPromise \<and> JS_IsObject ret' \<and> hasPropertyStr ret' ''then''
                       \<and> \<not> isDeferred (m_returnValueType m)
                    then getDeferredType provider (m_returnValueParameter m)
                    else m_returnValueType m) ret', st)"
  proof (cases "m_isLambda m")
    case True
    with h dr have call: "JS_Call jsHeapPtr JS_UNDEFINED vs = Inr ret'" by simp
    have "JavaScriptMethod_call_duktape JS_Call m (length st) n sta = (True, st @ [ret'])"
      unfolding n using sta True call_duktape_lambda [OF True, of JS_Call st vs jsHeapPtr] call
      by (simp add: duk_outcome_def)
    then show ?thesis
      by (simp add: JavaScriptMethod_invoke_duktape_def push popResult_duktape_success)
  next
    case False
    with h dr have call:
      "JS_Call (JS_GetPropertyStr jsHeapPtr (m_methodName m)) jsHeapPtr vs = Inr ret'" by simp
    have "JavaScriptMethod_call_duktape JS_Call m (length st) n sta = (True, st @ [ret'])"
      unfolding n using sta False
        call_duktape_method [OF False, of JS_Call st vs jsHeapPtr "m_methodName m"] call
      by simp
    then show ?thesis
      by (simp add: JavaScriptMethod_invoke_duktape_def push popResult_duktape_success)
  qed
qed


theorem return_value_marshalling_witness:
  "fst (JavaScriptMethod_invoke_quickjs sample_call sample_provider (script_method True False)
          async_function JS_UNDEFINED (Some [JString ''a'']) True)
     = Inr (JObject 1)
   \<and> fst (JavaScriptMethod_invoke_quickjs sample_call sample_provider (script_method True False)
          echo_function JS_UNDEFINED (Some [JString ''a'']) True)
     = Inr (JString ''ok'')
   \<and> JavaScriptMethod_invoke_duktape sample_call sample_provider (script_method True False)
          async_function (Some [JString ''a'']) True [JS_NULL]
     = (Inr (JObject 1), [JS_NULL])
   \<and> JavaScriptMethod_invoke_duktape sample_call sample_provider (script_method False False)
          (JS_OBJECT False [(''run'', echo_function)]) (Some [JString ''a'']) True [JS_NULL]
     = (Inr (JString ''ok''), [JS_NULL])"
proof -
  let ?m = "script_method True False"
  let ?m' = "script_method False False"
  let ?obj = "JS_OBJECT False [(''run'', echo_function)]"
  have marshal: "JavaScriptMethod_marshalArguments_quickjs ?m (Some [JString ''a''])
      = (Inr [JS_STRING ''a''], [Acquire (JS_STRING ''a'')])"
    by (simp add: JavaScriptMethod_marshalArguments_quickjs_def script_method_def getLength_def
        getElement_def vector_at_def String_type_def)
  have call: "sample_call async_function JS_UNDEFINED [JS_STRING ''a''] = Inr thenable"
    "sample_call echo_function JS_UNDEFINED [JS_STRING ''a''] = Inr (JS_STRING ''ok'')"
    by (simp_all add: async_function_def echo_function_def)
  have push: "JavaScriptMethod_pushCall_duktape ?m async_function (Some [JString ''a'']) [JS_NULL]
      = (Inr 1, [JS_NULL, async_function, JS_STRING ''a''])"
    by (simp add: JavaScriptMethod_pushCall_duktape_def script_method_def getLength_def
        getElement_def vector_at_def String_type_def push_def async_function_def)
  have push': "JavaScriptMethod_pushCall_duktape ?m' ?obj (Some [JString ''a'']) [JS_NULL]
      = (Inr 1, [JS_NULL, ?obj, JS_STRING ''run'', JS_STRING ''a''])"
    by (simp add: JavaScriptMethod_pushCall_duktape_def script_method_def getLength_def
        getElement_def vector_at_def String_type_def push_def)
  have sel: "m_isLambda ?m" "\<not> m_isLambda ?m'" "m_methodName ?m' = ''run''"
    "m_returnValueType ?m = String_type" "m_returnValueType ?m' = String_type"
    "getDeferredType sample_provider (m_returnValueParameter ?m) = Deferred_type"
    "\<not> isDeferred String_type"
    by (simp_all add: script_method_def sample_provider_def String_type_def)
  have vals: "JS_IsObject thenable" "hasPropertyStr thenable ''then''"
    "\<not> JS_IsObject (JS_STRING ''ok'')"
    "toJava Deferred_type thenable = Inr (JObject 1)"
    "toJava String_type (JS_STRING ''ok'') = Inr (JString ''ok'')"
    by (simp_all add: thenable_def Deferred_type_def String_type_def)
  have 1: "fst (JavaScriptMethod_invoke_quickjs sample_call sample_provider ?m async_function
      JS_UNDEFINED (Some [JString ''a'']) True) = Inr (JObject 1)"
    using return_value_marshalling [where m = ?m and javaArgs = "Some [JString ''a'']"
        and jsArgs = "[JS_STRING ''a'']" and tr = "[Acquire (JS_STRING ''a'')]"
        and JS_Call = sample_call and jsMethod = async_function and jsThis = JS_UNDEFINED
        and ret = thenable and provider = sample_provider and awaitJsPromise = True]
      marshal call
    by (simp add: sel vals)
  have 2: "fst (JavaScriptMethod_invoke_quickjs sample_call sample_provider ?m echo_function
      JS_UNDEFINED (Some [JString ''a'']) True) = Inr (JString ''ok'')"
    using return_value_marshalling [where m = ?m and javaArgs = "Some [JString ''a'']"
        and jsArgs = "[JS_STRING ''a'']" and tr = "[Acquire (JS_STRING ''a'')]"
        and JS_Call = sample_call and jsMethod = echo_function and jsThis = JS_UNDEFINED
        and ret = "JS_STRING ''ok''" and provider = sample_provider and awaitJsPromise = True]
      marshal call
    by (simp add: sel vals)
  have 3: "JavaScriptMethod_invoke_duktape sample_call sample_provider ?m async_function
      (Some [JString ''a'']) True [JS_NULL] = (Inr (JObject 1), [JS_NULL])"
    using return_value_marshalling [where m = ?m and javaArgs = "Some [JString ''a'']"
        and jsHeapPtr = async_function and st = "[JS_NULL]" and n = 1
        and sta = "[JS_NULL, async_function, JS_STRING ''a'']"
        and JS_Call = sample_call and ret' = thenable and provider = sample_provider
        and awaitJsPromise = True]
      push call
    by (simp add: sel vals)
  have call': "sample_call (JS_GetPropertyStr ?obj ''run'') ?obj [JS_STRING ''a'']
      = Inr (JS_STRING ''ok'')"
    by (simp add: echo_function_def)
  have 4: "JavaScriptMethod_invoke_duktape sample_call sample_provider ?m' ?obj
      (Some [JString ''a'']) True [JS_NULL] = (Inr (JString ''ok''), [JS_NULL])"
    using return_value_marshalling [where m = ?m' and javaArgs = "Some [JString ''a'']"
        and jsHeapPtr = ?obj and st = "[JS_NULL]" and n = 1
        and sta = "[JS_NULL, ?obj, JS_STRING ''run'', JS_STRING ''a'']"
        and JS_Call = sample_call and ret' = "JS_STRING ''ok''" and provider = sample_provider
        and awaitJsPromise = True]
      push' call'
    by (simp add: sel vals)
  from 1 2 3 4 show ?thesis by simp
qed

end
